theory Spec2Isabelle
  imports Complex_Main "HOL-Library.Sublist"
begin

section \<open>Strings, errors and dictionaries of the Python source\<close>

text \<open>
  The module \<^verbatim>\<open>src/model.py\<close> defines the table \<^verbatim>\<open>MODEL_DICT\<close> and the class
  \<^verbatim>\<open>ClassificationModel\<close>. Python strings are modelled as \<^typ>\<open>string\<close>, Python integers
  as \<^typ>\<open>int\<close>, the hyperparameters and tensor entries that are floats as \<^typ>\<open>real\<close>, and
  an exception is a value of the type \<open>error\<close>, returned on the left of a sum. An exception
  that comes out of a call into a library is wrapped in \<open>In_library\<close>, so that it is told
  apart from the exceptions that the statements of the module raise themselves.
\<close>

datatype error =
    ValueError string
  | AssertionError string
  | KeyError string
  | AttributeError string
  | RuntimeError string
  | TypeError string
  | OverflowError string
  | OSError string
  | In_library error

text \<open>\<^verbatim>\<open>isinstance(err, ValueError)\<close>, wherever the exception was raised.\<close>

fun is_ValueError :: "error \<Rightarrow> bool" where
  "is_ValueError (ValueError msg) = True"
| "is_ValueError (In_library err) = is_ValueError err"
| "is_ValueError _ = False"

text \<open>\<^verbatim>\<open>k.startswith(p)\<close> and \<^verbatim>\<open>p in k\<close> on strings.\<close>

definition startswith :: "string \<Rightarrow> string \<Rightarrow> bool" where
  "startswith k p = prefix p k"

definition str_in :: "string \<Rightarrow> string \<Rightarrow> bool" where
  "str_in p k = sublist p k"

text \<open>
  \<^verbatim>\<open>k.replace(old, "")\<close>: the occurrences of a non-empty \<open>old\<close> are found from left to
  right, without overlap, and each one is deleted.
\<close>

fun str_remove :: "string \<Rightarrow> string \<Rightarrow> string" where
  "str_remove old [] = []"
| "str_remove old (c # cs) =
     (if old \<noteq> [] \<and> prefix old (c # cs)
      then str_remove old (drop (length old) (c # cs))
      else c # str_remove old cs)"

text \<open>
  The text that an f-string produces for a list of plain strings (\<^verbatim>\<open>repr\<close> of the list):
  every element in single quotes, separated by a comma and a blank, in brackets.
\<close>

definition squote :: char where
  "squote = CHR 0x27"

definition py_repr_str :: "string \<Rightarrow> string" where
  "py_repr_str s = squote # s @ [squote]"

fun join_comma :: "string list \<Rightarrow> string" where
  "join_comma [] = []"
| "join_comma [s] = s"
| "join_comma (s # t # ss) = s @ '', '' @ join_comma (t # ss)"

definition py_repr_list :: "string list \<Rightarrow> string" where
  "py_repr_list ss = ''['' @ join_comma (map py_repr_str ss) @ '']''"

text \<open>\<^verbatim>\<open>d[k]\<close> on a dictionary held as an association list: a missing key raises KeyError.\<close>

definition dict_getitem :: "(string \<times> 'v) list \<Rightarrow> string \<Rightarrow> error + 'v" where
  "dict_getitem d k = (case map_of d k of None \<Rightarrow> Inl (KeyError k) | Some v \<Rightarrow> Inr v)"

text \<open>
  \<^verbatim>\<open>d[k] = v\<close>: an existing key keeps its position and takes the new value, a new key
  is appended.
\<close>

fun dict_setitem :: "(string \<times> 'v) list \<Rightarrow> string \<Rightarrow> 'v \<Rightarrow> (string \<times> 'v) list" where
  "dict_setitem [] k v = [(k, v)]"
| "dict_setitem ((k', v') # d) k v =
     (if k' = k then (k, v) # d else (k', v') # dict_setitem d k v)"

section \<open>The model table\<close>

definition MODEL_DICT :: "(string \<times> string) list" where
  "MODEL_DICT =
    [(''vit-b16-224-in21k'', ''google/vit-base-patch16-224-in21k''),
     (''vit-b32-224-in21k'', ''google/vit-base-patch32-224-in21k''),
     (''vit-l32-224-in21k'', ''google/vit-large-patch32-224-in21k''),
     (''vit-l15-224-in21k'', ''google/vit-large-patch16-224-in21k''),
     (''vit-h14-224-in21k'', ''google/vit-huge-patch14-224-in21k''),
     (''vit-b16-224'', ''google/vit-base-patch16-224''),
     (''vit-l16-224'', ''google/vit-large-patch16-224''),
     (''vit-b16-384'', ''google/vit-base-patch16-384''),
     (''vit-b32-384'', ''google/vit-base-patch32-384''),
     (''vit-l16-384'', ''google/vit-large-patch16-384''),
     (''vit-l32-384'', ''google/vit-large-patch32-384''),
     (''vit-b16-224-dino'', ''facebook/dino-vitb16''),
     (''vit-b8-224-dino'', ''facebook/dino-vitb8''),
     (''vit-s16-224-dino'', ''facebook/dino-vits16''),
     (''vit-s8-224-dino'', ''facebook/dino-vits8''),
     (''beit-b16-224-in21k'', ''microsoft/beit-base-patch16-224-pt22k-ft22k''),
     (''beit-l16-224-in21k'', ''microsoft/beit-large-patch16-224-pt22k-ft22k'')]"

section \<open>Data of the classification model\<close>

text \<open>
  A tensor of inputs is a list of samples along its first dimension, integer targets are
  a list of class indices, and soft targets and logits are a list of rows.
\<close>

type_synonym sample = "real list"
type_synonym soft = "real list list"

text \<open>A parameter of the network: its \<^verbatim>\<open>requires_grad\<close> flag and its values.\<close>

record param =
  requires_grad :: bool
  data :: "real list"

text \<open>The keyword arguments of \<^verbatim>\<open>LoraConfig\<close>.\<close>

record lora_config =
  cfg_r :: int
  cfg_lora_alpha :: int
  cfg_target_modules :: "string list"
  cfg_lora_dropout :: real
  cfg_bias :: string
  cfg_modules_to_save :: "string list"

text \<open>
  The network is an object of the model hub. Of it the source reads and writes the named
  parameters, in the order \<^verbatim>\<open>named_parameters()\<close> yields them.
\<close>

record network =
  named_parameters :: "(string \<times> param) list"

text \<open>The arguments of the constructor, which it stores in fields of the same names.\<close>

record hparams =
  model_name :: string
  optimizer :: string
  lr :: real
  betas :: "real \<times> real"
  momentum :: real
  weight_decay :: real
  scheduler :: string
  warmup_steps :: int
  n_classes :: int
  mixup_alpha :: real
  cutmix_alpha :: real
  mix_prob :: real
  label_smoothing :: real
  image_size :: int
  weights :: "string option"
  training_mode :: string
  lora_r :: int
  lora_alpha :: int
  lora_target_modules :: "string list"
  lora_dropout :: real
  lora_bias :: string
  from_scratch :: bool
  batch_size :: int
  filename :: string
  open_gact :: bool
  gact_level :: string
  use_4bit :: bool

text \<open>The default values of the constructor's arguments.\<close>

definition default_hparams :: hparams where
  "default_hparams =
    \<lparr> model_name = ''vit-b16-224-in21k'', optimizer = ''sgd'', lr = 1 / 100,
      betas = (9 / 10, 999 / 1000), momentum = 9 / 10, weight_decay = 0,
      scheduler = ''cosine'', warmup_steps = 0, n_classes = 10, mixup_alpha = 0,
      cutmix_alpha = 0, mix_prob = 1, label_smoothing = 0, image_size = 224,
      weights = None, training_mode = ''full'', lora_r = 16, lora_alpha = 16,
      lora_target_modules = [''query'', ''value''], lora_dropout = 0,
      lora_bias = ''none'', from_scratch = False, batch_size = 32, filename = ''none'',
      open_gact = False, gact_level = ''L0'', use_4bit = False \<rparr>"

text \<open>
  The metrics of a collection, and the value a metric returns for a batch. The statistics
  of a batch are a row of five integer counts (true positives, false positives, true
  negatives, false negatives, support) for every class; they count samples and stay far
  below \<open>2\<^sup>6\<^sup>3\<close>, so the integers of the tensor are taken as they are.
\<close>

datatype metric = Accuracy int int | StatScores int

type_synonym stat_row = "int \<times> int \<times> int \<times> int \<times> int"

datatype metric_value = Scalar real | Stats "stat_row list"

text \<open>
  A value of a float32 tensor as \<^verbatim>\<open>item()\<close> hands it to Python: a finite number, which
  is kept as the real number it is equal to, a negative zero, an infinity or no number.
\<close>

datatype tfloat = Finite real | NegZero | PosInf | NegInf | NaN

text \<open>
  The optimizers and schedulers are objects of the libraries, written as the constructor
  call that makes them.
\<close>

datatype optimizer_obj =
    Adam "(string \<times> param) list" real "real \<times> real" real
  | AdamW "(string \<times> param) list" real "real \<times> real" real
  | SGD "(string \<times> param) list" real real real
  | Lpmm_AdamW "(string \<times> param) list" real "real \<times> real" real

datatype scheduler_obj =
    Cosine_schedule_with_warmup optimizer_obj int int
  | LambdaLR optimizer_obj "int \<Rightarrow> real"

text \<open>
  \<^verbatim>\<open>trainer.estimated_stepping_batches\<close> is an integer, or \<^verbatim>\<open>float('inf')\<close> when the
  training has no end.
\<close>

datatype stepping_batches = Steps int | Infinite_steps

text \<open>
  The calls into the libraries that the properties below speak of, in the order the code
  makes them. The trace is what an observer of the libraries sees; a call is in the trace
  also when it raises, and the trace is kept when the code raises. The run name that the
  logger is given is kept as the values the f-string formats (learning rate, batch size,
  optimizer, scheduler, compression level, 4-bit flag). Printing,
  \<^verbatim>\<open>save_hyperparameters\<close>, \<^verbatim>\<open>wandb.define_metric\<close> and the construction of the metric,
  loss, augmentation, optimizer and scheduler objects leave no entry.
\<close>

datatype event =
    AutoConfig_from_pretrained string
  | From_config string int int
  | From_pretrained string int int bool
  | Torch_load string
  | Load_state_dict "(string \<times> real list) list" bool
  | Get_peft_model lora_config
  | Wandb_init string "real \<times> int \<times> string \<times> string \<times> string \<times> bool"
  | Gact_set_optimization_level string
  | Controller_install_hook
  | Mixup_call "sample list" "int list"
  | Controller_iterate
  | Optimizers_call
  | Net_forward "sample list"
  | Loss_call soft soft
  | Zero_grad
  | Backward real
  | Metrics_call string soft "int list"
  | Self_log string real
  | Wandb_log string real string int
  | To_csv string "string list" "(tfloat \<times> int) list"

text \<open>
  The libraries, as parameters. A call that hands a value back to the code returns that
  value or raises, as the library decides: what the model hub returns for a checkpoint
  path, what a checkpoint file holds, how a state dict (loaded strictly or not) and an
  adapter change a network, the augmentation, the logits, the loss, the class of a row of
  soft targets, the value of a metric, how often the controller calls the method it is
  handed, and the number of steps the trainer estimates. \<open>lib_mixup\<close> and \<open>lib_loss_fn\<close>
  are the classes \<^verbatim>\<open>Mixup\<close> and \<^verbatim>\<open>SoftTargetCrossEntropy\<close> that the source imports.
  \<open>lib_raises\<close> says whether a call that hands nothing back raises, and the three
  \<open>lib_new\<close> functions whether the constructor of a metric, an optimizer or a scheduler
  rejects its arguments. The calls that only log (\<^verbatim>\<open>self.log\<close>, \<^verbatim>\<open>wandb.init\<close>,
  \<^verbatim>\<open>wandb.define_metric\<close>, \<^verbatim>\<open>wandb.log\<close>), \<^verbatim>\<open>print\<close> and the writing of the csv file are
  taken to return.
\<close>

record env =
  lib_from_config :: "string \<Rightarrow> int \<Rightarrow> int \<Rightarrow> error + network"
  lib_from_pretrained :: "string \<Rightarrow> int \<Rightarrow> int \<Rightarrow> bool \<Rightarrow> error + network"
  lib_torch_load :: "string \<Rightarrow> error + (string \<times> real list) list"
  lib_load_state_dict :: "network \<Rightarrow> (string \<times> real list) list \<Rightarrow> bool \<Rightarrow> error + network"
  lib_get_peft_model :: "network \<Rightarrow> lora_config \<Rightarrow> error + network"
  lib_new_metric :: "metric \<Rightarrow> error option"
  lib_mixup :: "sample list \<Rightarrow> int list \<Rightarrow> error + sample list \<times> soft"
  lib_forward :: "network \<Rightarrow> sample list \<Rightarrow> error + soft"
  lib_loss_fn :: "soft \<Rightarrow> soft \<Rightarrow> error + real"
  lib_argmax :: "soft \<Rightarrow> error + int list"
  lib_metric :: "metric \<Rightarrow> soft \<Rightarrow> int list \<Rightarrow> error + metric_value"
  lib_iterate :: "error + nat"
  lib_raises :: "event \<Rightarrow> error option"
  lib_current_lr :: real
  lib_new_optimizer :: "optimizer_obj \<Rightarrow> error option"
  lib_estimated_stepping_batches :: "error + stepping_batches"
  lib_new_scheduler :: "scheduler_obj \<Rightarrow> error option"

text \<open>The object: the stored arguments and the fields the constructor adds.\<close>

record model = hparams +
  net :: network
  train_metrics :: "(string \<times> metric) list"
  val_metrics :: "(string \<times> metric) list"
  test_metrics :: "(string \<times> metric) list"
  test_metric_outputs :: "metric_value list"
  train_step :: int
  val_step :: int
  partial_x :: "sample list option"
  partial_y :: "soft option"

text \<open>
  A piece of code that calls libraries gives the trace of its calls and either the
  exception it raises or its value. \<open>res_bind\<close> runs a second piece after a first one that
  has not raised. \<open>lib_call\<close> is a call that hands a value back, \<open>lib_value\<close> one that
  leaves no entry in the trace, \<open>effect\<close> a call that hands nothing back, and \<open>construct\<close>
  the call of a constructor.
\<close>

type_synonym 'a res = "event list \<times> (error + 'a)"

definition res_return :: "'a \<Rightarrow> 'a res" where
  "res_return v = ([], Inr v)"

definition res_bind :: "'a res \<Rightarrow> ('a \<Rightarrow> 'b res) \<Rightarrow> 'b res" where
  "res_bind r f =
     (case r of
        (es, Inl err) \<Rightarrow> (es, Inl err)
      | (es, Inr v) \<Rightarrow> (case f v of (es', r') \<Rightarrow> (es @ es', r')))"

definition lib_value :: "error + 'a \<Rightarrow> error + 'a" where
  "lib_value r = (case r of Inl err \<Rightarrow> Inl (In_library err) | Inr v \<Rightarrow> Inr v)"

definition lib_call :: "event \<Rightarrow> error + 'a \<Rightarrow> 'a res" where
  "lib_call ev r = ([ev], lib_value r)"

definition effect :: "env \<Rightarrow> event \<Rightarrow> unit res" where
  "effect e ev = lib_call ev (case lib_raises e ev of None \<Rightarrow> Inr () | Some err \<Rightarrow> Inl err)"

definition construct :: "('a \<Rightarrow> error option) \<Rightarrow> 'a \<Rightarrow> error + 'a" where
  "construct check obj = (case check obj of None \<Rightarrow> Inr obj | Some err \<Rightarrow> Inl (In_library err))"

section \<open>The constructor\<close>

text \<open>Lines 134 to 140: the lookup of the checkpoint path; the bare \<^verbatim>\<open>except\<close>
  turns every exception of the lookup into a ValueError.\<close>

definition model_error_message :: "string \<Rightarrow> string" where
  "model_error_message name =
     name @ '' is not an available model. Should be one of '' @ py_repr_list (map fst MODEL_DICT)"

definition lookup_model_path :: "string \<Rightarrow> error + string" where
  "lookup_model_path name =
     (case dict_getitem MODEL_DICT name of
        Inl _ \<Rightarrow> Inl (ValueError (model_error_message name))
      | Inr model_path \<Rightarrow> Inr model_path)"

text \<open>
  Lines 142 to 169: the network, with random or pretrained weights. \<open>lib_from_config\<close>
  stands for lines 145 to 147, the network made from the configuration with a new
  classifier; the last argument of \<open>lib_from_pretrained\<close> says whether the call has the
  4-bit quantization configuration.
\<close>

definition quantization_error_message :: string where
  "quantization_error_message = ''4-bit quantization can not work with full fine-tuning mode''"

definition init_network :: "env \<Rightarrow> hparams \<Rightarrow> string \<Rightarrow> network res" where
  "init_network e hp model_path =
     (if from_scratch hp then
        res_bind (effect e (AutoConfig_from_pretrained model_path))
          (\<lambda>_. lib_call (From_config model_path (image_size hp) (n_classes hp))
                 (lib_from_config e model_path (image_size hp) (n_classes hp)))
      else if use_4bit hp then
        (if training_mode hp \<noteq> ''full'' then
           lib_call (From_pretrained model_path (n_classes hp) (image_size hp) True)
             (lib_from_pretrained e model_path (n_classes hp) (image_size hp) True)
         else ([], Inl (AssertionError quantization_error_message)))
      else
        lib_call (From_pretrained model_path (n_classes hp) (image_size hp) False)
          (lib_from_pretrained e model_path (n_classes hp) (image_size hp) False))"

text \<open>Lines 173 to 185: the checkpoint. The loop fills a new dictionary with the entries
  whose key starts with \<^verbatim>\<open>net\<close>, under the key with \<^verbatim>\<open>net.\<close> replaced by nothing.
  \<open>lib_torch_load\<close> stands for \<^verbatim>\<open>torch.load(self.weights)["state_dict"]\<close>.\<close>

fun strip_prefix_loop ::
  "(string \<times> real list) list \<Rightarrow> (string \<times> real list) list \<Rightarrow> (string \<times> real list) list" where
  "strip_prefix_loop new_state_dict [] = new_state_dict"
| "strip_prefix_loop new_state_dict ((k, v) # ckpt) =
     (if startswith k ''net''
      then strip_prefix_loop (dict_setitem new_state_dict (str_remove ''net.'' k) v) ckpt
      else strip_prefix_loop new_state_dict ckpt)"

definition load_checkpoint :: "env \<Rightarrow> hparams \<Rightarrow> network \<Rightarrow> network res" where
  "load_checkpoint e hp n =
     (case weights hp of
        None \<Rightarrow> res_return n
      | Some w \<Rightarrow>
          if w = [] then res_return n
          else
            res_bind (lib_call (Torch_load w) (lib_torch_load e w))
              (\<lambda>ckpt.
                 let new_state_dict = strip_prefix_loop [] ckpt
                 in lib_call (Load_state_dict new_state_dict True)
                      (lib_load_state_dict e n new_state_dict True)))"

text \<open>Lines 187 to 209: the fine-tuning mode.\<close>

definition freeze :: "string \<times> param \<Rightarrow> string \<times> param" where
  "freeze np =
     (if \<not> str_in ''classifier'' (fst np)
      then (fst np, (snd np)\<lparr>requires_grad := False\<rparr>)
      else np)"

definition make_lora_config :: "hparams \<Rightarrow> lora_config" where
  "make_lora_config hp =
     \<lparr> cfg_r = lora_r hp, cfg_lora_alpha = lora_alpha hp,
       cfg_target_modules = lora_target_modules hp, cfg_lora_dropout = lora_dropout hp,
       cfg_bias = lora_bias hp, cfg_modules_to_save = [''classifier''] \<rparr>"

definition mode_error_message :: "string \<Rightarrow> string" where
  "mode_error_message m =
     m @ '' is not an available fine-tuning mode. Should be one of ''
       @ py_repr_list [''full'', ''linear'', ''lora'']"

definition prepare_mode :: "env \<Rightarrow> hparams \<Rightarrow> network \<Rightarrow> network res" where
  "prepare_mode e hp n =
     (if training_mode hp = ''linear'' then
        res_return (n\<lparr>named_parameters := map freeze (named_parameters n)\<rparr>)
      else if training_mode hp = ''lora'' then
        lib_call (Get_peft_model (make_lora_config hp))
          (lib_get_peft_model e n (make_lora_config hp))
      else if training_mode hp = ''full'' then res_return n
      else ([], Inl (ValueError (mode_error_message (training_mode hp)))))"

text \<open>
  Lines 211 to 280: metrics, counters, the logger and the activation compression. The
  metrics are constructed in the order of the source, and the first constructor that
  rejects its arguments ends the construction of the object.
\<close>

definition accuracy_metrics :: "hparams \<Rightarrow> (string \<times> metric) list" where
  "accuracy_metrics hp =
     [(''acc'', Accuracy (n_classes hp) 1),
      (''acc_top5'', Accuracy (n_classes hp) (min 5 (n_classes hp)))]"

definition stats_metrics :: "hparams \<Rightarrow> (string \<times> metric) list" where
  "stats_metrics hp = accuracy_metrics hp @ [(''stats'', StatScores (n_classes hp))]"

fun first_error :: "('a \<Rightarrow> error option) \<Rightarrow> 'a list \<Rightarrow> error option" where
  "first_error check [] = None"
| "first_error check (a # as) =
     (case check a of Some err \<Rightarrow> Some err | None \<Rightarrow> first_error check as)"

definition new_model :: "hparams \<Rightarrow> network \<Rightarrow> model" where
  "new_model hp n =
     hparams.extend hp
       (model.fields n (accuracy_metrics hp) (accuracy_metrics hp) (stats_metrics hp)
          [] 0 0 None None)"

definition gact_setup :: "env \<Rightarrow> hparams \<Rightarrow> unit res" where
  "gact_setup e hp =
     (if open_gact hp
      then res_bind (effect e (Gact_set_optimization_level (gact_level hp)))
             (\<lambda>_. effect e Controller_install_hook)
      else res_return ())"

definition finish_init :: "env \<Rightarrow> hparams \<Rightarrow> network \<Rightarrow> model res" where
  "finish_init e hp n =
     (case first_error (lib_new_metric e)
             (map snd (accuracy_metrics hp @ accuracy_metrics hp @ stats_metrics hp)) of
        Some err \<Rightarrow> ([], Inl (In_library err))
      | None \<Rightarrow>
          res_bind
            (lib_call
               (Wandb_init (model_name hp @ ''_'' @ training_mode hp)
                  (lr hp, batch_size hp, optimizer hp, scheduler hp, gact_level hp, use_4bit hp))
               (Inr ()))
            (\<lambda>_. res_bind (gact_setup e hp) (\<lambda>_. res_return (new_model hp n))))"

definition build_network :: "env \<Rightarrow> hparams \<Rightarrow> network res" where
  "build_network e hp =
     (case lookup_model_path (model_name hp) of
        Inl err \<Rightarrow> ([], Inl err)
      | Inr model_path \<Rightarrow> res_bind (init_network e hp model_path) (load_checkpoint e hp))"

definition init :: "env \<Rightarrow> hparams \<Rightarrow> model res" where
  "init e hp =
     res_bind (build_network e hp) (\<lambda>n. res_bind (prepare_mode e hp n) (finish_init e hp))"

section \<open>The methods\<close>

text \<open>Line 282, \<^verbatim>\<open>forward\<close>: the logits of the network.\<close>

definition forward :: "env \<Rightarrow> model \<Rightarrow> sample list \<Rightarrow> soft res" where
  "forward e self x = lib_call (Net_forward x) (lib_forward e (net self) x)"

text \<open>
  Lines 285 to 290, \<^verbatim>\<open>gact_backward\<close>: a forward and backward pass over the stored slice.
  The fields \<^verbatim>\<open>partial_x\<close> and \<^verbatim>\<open>partial_y\<close> exist only once a step has stored them.
\<close>

definition gact_backward :: "env \<Rightarrow> model \<Rightarrow> unit res" where
  "gact_backward e self =
     res_bind (effect e Optimizers_call)
       (\<lambda>_. case partial_x self of
               None \<Rightarrow> ([], Inl (AttributeError ''partial_x''))
             | Some px \<Rightarrow>
                 res_bind (forward e self px)
                   (\<lambda>partial_pred.
                      case partial_y self of
                        None \<Rightarrow> ([], Inl (AttributeError ''partial_y''))
                      | Some py \<Rightarrow>
                          res_bind (lib_call (Loss_call partial_pred py)
                                      (lib_loss_fn e partial_pred py))
                            (\<lambda>loss. res_bind (effect e Zero_grad)
                                       (\<lambda>_. effect e (Backward loss)))))"

text \<open>
  \<^verbatim>\<open>self.controller.iterate(self.gact_backward)\<close>: the controller of the library raises, or
  it is handed the method and calls it as often as it decides; the first call that raises
  ends it.
\<close>

fun run_callbacks :: "nat \<Rightarrow> unit res \<Rightarrow> unit res" where
  "run_callbacks 0 cb = res_return ()"
| "run_callbacks (Suc k) cb = res_bind cb (\<lambda>_. run_callbacks k cb)"

definition controller_iterate :: "env \<Rightarrow> model \<Rightarrow> unit res" where
  "controller_iterate e self =
     res_bind (lib_call Controller_iterate (lib_iterate e))
       (\<lambda>k. run_callbacks k (gact_backward e self))"

text \<open>
  \<^verbatim>\<open>F.one_hot(y, num_classes=n).float()\<close>. The library raises a RuntimeError for a
  negative target and for a target that is not below \<open>n\<close>; with \<open>n = -1\<close> it takes one class
  more than the greatest target, and for no targets at all it wants a positive \<open>n\<close>.
  Otherwise row \<open>i\<close> is 1 at position \<open>y[i]\<close> and 0 elsewhere.
\<close>

definition one_hot_rows :: "int list \<Rightarrow> int \<Rightarrow> soft" where
  "one_hot_rows y num_classes =
     map (\<lambda>c. map (\<lambda>j. if j = c then 1 else 0) [0..num_classes - 1]) y"

definition one_hot :: "int list \<Rightarrow> int \<Rightarrow> error + soft" where
  "one_hot y num_classes =
     (if y = [] then
        (if num_classes \<le> 0
         then Inl (RuntimeError ''Can not infer total number of classes from empty tensor.'')
         else Inr [])
      else if list_ex (\<lambda>c. c < 0) y
        then Inl (RuntimeError ''Class values must be non-negative.'')
      else if num_classes = - 1 then Inr (one_hot_rows y (Max (set y) + 1))
      else if list_ex (\<lambda>c. num_classes \<le> c) y
        then Inl (RuntimeError ''Class values must be smaller than num_classes.'')
      else Inr (one_hot_rows y num_classes))"

text \<open>\<^verbatim>\<open>getattr(self, f"{mode}_metrics")\<close>: the object has three such attributes.\<close>

definition getattr_metrics :: "model \<Rightarrow> string \<Rightarrow> error + (string \<times> metric) list" where
  "getattr_metrics self mode =
     (if mode = ''train'' then Inr (train_metrics self)
      else if mode = ''val'' then Inr (val_metrics self)
      else if mode = ''test'' then Inr (test_metrics self)
      else Inl (AttributeError (mode @ ''_metrics'')))"

text \<open>\<^verbatim>\<open>k.lower()\<close> on the ASCII letters.\<close>

definition lower_char :: "char \<Rightarrow> char" where
  "lower_char c =
     (if (65::nat) \<le> of_char c \<and> of_char c \<le> (90::nat)
      then char_of (of_char c + (32::nat)) else c)"

definition str_lower :: "string \<Rightarrow> string" where
  "str_lower s = map lower_char s"

definition is_scalar :: "metric_value \<Rightarrow> bool" where
  "is_scalar v = (case v of Scalar _ \<Rightarrow> True | Stats _ \<Rightarrow> False)"

definition scalar_value :: "metric_value \<Rightarrow> real" where
  "scalar_value v = (case v of Scalar x \<Rightarrow> x | Stats _ \<Rightarrow> 0)"

text \<open>Lines 323 to 329: the loss and every scalar metric go to both loggers.\<close>

definition step_counter :: "model \<Rightarrow> string \<Rightarrow> int" where
  "step_counter self mode = (if mode = ''train'' then train_step self else val_step self)"

definition log_events :: "model \<Rightarrow> string \<Rightarrow> real \<Rightarrow> (string \<times> metric_value) list \<Rightarrow> event list" where
  "log_events self mode loss metrics =
     [Self_log (mode @ ''_loss'') loss,
      Wandb_log (mode @ ''_loss'') loss (mode @ ''_step'') (step_counter self mode)]
     @ concat (map (\<lambda>(k, v).
         if is_scalar v
         then [Self_log (mode @ ''_'' @ str_lower k) (scalar_value v),
               Wandb_log (mode @ ''_'' @ str_lower k) (scalar_value v) (mode @ ''_step'')
                 (step_counter self mode)]
         else []) metrics)"

text \<open>
  Lines 292 to 334, \<^verbatim>\<open>shared_step\<close>. The object is mutated in place, so the object is
  returned also when the step raises, with the assignments made up to there.
\<close>

text \<open>Lines 294 and 295: the counters.\<close>

definition count_step :: "model \<Rightarrow> string \<Rightarrow> model" where
  "count_step self mode =
     (let s1 = self\<lparr>train_step := train_step self + (if mode = ''train'' then 1 else 0)\<rparr>
      in s1\<lparr>val_step := val_step s1 + (if mode = ''val'' then 1 else 0)\<rparr>)"

text \<open>Lines 297 to 301: the augmentation, or the one-hot targets.\<close>

definition prepare_batch ::
  "env \<Rightarrow> model \<Rightarrow> string \<Rightarrow> sample list \<Rightarrow> int list \<Rightarrow> (sample list \<times> soft) res" where
  "prepare_batch e self mode x y =
     (if mode = ''train''
      then lib_call (Mixup_call x y) (lib_mixup e x y)
      else ([], case lib_value (one_hot y (n_classes self)) of
                  Inl err \<Rightarrow> Inl err
                | Inr y' \<Rightarrow> Inr (x, y')))"

text \<open>Lines 303 to 305: the controller replays the last step.\<close>

definition iterate_gact :: "env \<Rightarrow> model \<Rightarrow> string \<Rightarrow> unit res" where
  "iterate_gact e self mode =
     (if open_gact self \<and> mode = ''train'' \<and> train_step self \<noteq> 1
      then controller_iterate e self
      else res_return ())"

text \<open>Lines 297 to 309: the batch, the replay, the logits and the loss.\<close>

definition compute_loss ::
  "env \<Rightarrow> model \<Rightarrow> string \<Rightarrow> sample list \<Rightarrow> int list
     \<Rightarrow> (sample list \<times> soft \<times> soft \<times> real) res" where
  "compute_loss e self mode x y =
     res_bind (prepare_batch e self mode x y)
       (\<lambda>(x', y').
          res_bind (iterate_gact e self mode)
            (\<lambda>_. res_bind (forward e self x')
                   (\<lambda>pred. res_bind (lib_call (Loss_call pred y') (lib_loss_fn e pred y'))
                             (\<lambda>loss. res_return (x', y', pred, loss)))))"

text \<open>Lines 311 to 314: the slice kept for the controller.\<close>

definition store_partial :: "model \<Rightarrow> sample list \<Rightarrow> soft \<Rightarrow> model" where
  "store_partial self x y =
     (if open_gact self
      then self\<lparr>partial_x := Some (take 8 x), partial_y := Some (take 8 y)\<rparr>
      else self)"

text \<open>
  Lines 319 to 334: metrics, logging, and the statistics of a test batch. The collection
  computes its metrics in their order; the first one that raises ends the step.
\<close>

fun eval_metrics ::
  "env \<Rightarrow> (string \<times> metric) list \<Rightarrow> soft \<Rightarrow> int list \<Rightarrow> error + (string \<times> metric_value) list" where
  "eval_metrics e [] pred target = Inr []"
| "eval_metrics e ((k, m) # coll) pred target =
     (case lib_value (lib_metric e m pred target) of
        Inl err \<Rightarrow> Inl err
      | Inr v \<Rightarrow>
          (case eval_metrics e coll pred target of
             Inl err \<Rightarrow> Inl err
           | Inr vs \<Rightarrow> Inr ((k, v) # vs)))"

definition record_metrics ::
  "env \<Rightarrow> model \<Rightarrow> string \<Rightarrow> soft \<Rightarrow> soft \<Rightarrow> real \<Rightarrow> model \<times> event list \<times> (error + real)" where
  "record_metrics e self mode pred y loss =
     (case getattr_metrics self mode of
        Inl err \<Rightarrow> (self, [], Inl err)
      | Inr coll \<Rightarrow>
          (case lib_value (lib_argmax e y) of
             Inl err \<Rightarrow> (self, [], Inl err)
           | Inr target \<Rightarrow>
               (case eval_metrics e coll pred target of
                  Inl err \<Rightarrow> (self, [Metrics_call mode pred target], Inl err)
                | Inr metrics \<Rightarrow>
                    (let es = Metrics_call mode pred target # log_events self mode loss metrics
                     in if mode = ''test''
                        then (case dict_getitem metrics ''stats'' of
                                Inl err \<Rightarrow> (self, es, Inl err)
                              | Inr st \<Rightarrow>
                                  (self\<lparr>test_metric_outputs := test_metric_outputs self @ [st]\<rparr>,
                                   es, Inr loss))
                        else (self, es, Inr loss)))))"

definition shared_step ::
  "env \<Rightarrow> model \<Rightarrow> sample list \<times> int list \<Rightarrow> string \<Rightarrow> model \<times> event list \<times> (error + real)" where
  "shared_step e self batch mode =
     (case batch of
        (x, y) \<Rightarrow>
          (let s1 = count_step self mode in
           case compute_loss e s1 mode x y of
             (es, Inl err) \<Rightarrow> (s1, es, Inl err)
           | (es, Inr (x', y', pred, loss)) \<Rightarrow>
               (case record_metrics e (store_partial s1 x' y') mode pred y' loss of
                  (s3, es_log, res) \<Rightarrow> (s3, es @ es_log, res))))"

text \<open>Lines 336 to 344: the three steps the training loop calls.\<close>

definition training_step ::
  "env \<Rightarrow> model \<Rightarrow> sample list \<times> int list \<Rightarrow> model \<times> event list \<times> (error + real)" where
  "training_step e self batch =
     (case shared_step e self batch ''train'' of
        (self', es, res) \<Rightarrow> (self', Self_log ''lr'' (lib_current_lr e) # es, res))"

definition validation_step ::
  "env \<Rightarrow> model \<Rightarrow> sample list \<times> int list \<Rightarrow> model \<times> event list \<times> (error + real)" where
  "validation_step e self batch = shared_step e self batch ''val''"

definition test_step ::
  "env \<Rightarrow> model \<Rightarrow> sample list \<times> int list \<Rightarrow> model \<times> event list \<times> (error + real)" where
  "test_step e self batch = shared_step e self batch ''test''"

text \<open>
  Lines 346 to 362, \<^verbatim>\<open>on_test_epoch_end\<close>. \<^verbatim>\<open>torch.stack\<close> wants a non-empty list of
  tensors of one shape; the sum over the new last dimension adds them entry by entry.
  Iterating the sum of tensors without dimensions raises a TypeError.
\<close>

fun add_row :: "stat_row \<Rightarrow> stat_row \<Rightarrow> stat_row" where
  "add_row (tp, fp, tn, fneg, supp) (tp', fp', tn', fneg', supp') =
     (tp + tp', fp + fp', tn + tn', fneg + fneg', supp + supp')"

definition add_stats :: "stat_row list \<Rightarrow> stat_row list \<Rightarrow> stat_row list" where
  "add_stats a b = map (\<lambda>(p, q). add_row p q) (zip a b)"

definition same_shape :: "metric_value \<Rightarrow> metric_value \<Rightarrow> bool" where
  "same_shape u v =
     (case (u, v) of
        (Scalar _, Scalar _) \<Rightarrow> True
      | (Stats a, Stats b) \<Rightarrow> length a = length b
      | _ \<Rightarrow> False)"

definition stats_rows :: "metric_value \<Rightarrow> stat_row list" where
  "stats_rows v = (case v of Stats a \<Rightarrow> a | Scalar _ \<Rightarrow> [])"

definition stack_sum :: "metric_value list \<Rightarrow> error + stat_row list" where
  "stack_sum outputs =
     (case outputs of
        [] \<Rightarrow> Inl (In_library (RuntimeError ''stack expects a non-empty TensorList''))
      | v # vs \<Rightarrow>
          if \<not> list_all (same_shape v) vs
          then Inl (In_library (RuntimeError ''stack expects each tensor to be equal size''))
          else if is_scalar v then Inl (In_library (TypeError ''iteration over a 0-d tensor''))
          else Inr (foldl add_stats (stats_rows v) (map stats_rows vs)))"

text \<open>
  Line 356, \<^verbatim>\<open>tp / sup\<close> on two entries of an integer tensor: both are converted to
  float32 and divided in float32. A float32 number has a significand of 24 bits, and both
  the conversion and the division round to the nearest such number, a tie to the one with
  an even significand. The counts are below \<open>2\<^sup>6\<^sup>3\<close>, so every quotient that is not zero
  is in the range of the normal float32 numbers.
\<close>

text \<open>The number of bits of a natural number.\<close>

function bit_length :: "nat \<Rightarrow> nat" where
  "bit_length n = (if n = 0 then 0 else Suc (bit_length (n div 2)))"
  by pat_completeness auto
termination by (relation "measure id") auto

declare bit_length.simps [simp del]

text \<open>The integer nearest to \<open>n / d\<close> for a positive \<open>d\<close>, a tie going to the even one.\<close>

definition round_half_even :: "int \<Rightarrow> int \<Rightarrow> int" where
  "round_half_even n d =
     (let q = n div d; r = n mod d
      in if 2 * r > d \<or> (2 * r = d \<and> odd q) then q + 1 else q)"

text \<open>
  The float32 number nearest to \<open>n / d\<close> for positive \<open>n\<close> and \<open>d\<close>: with \<open>fl\<close> the greatest
  power of two that is not above the quotient, the quotient is rounded to a multiple of
  \<open>2\<^bsup>fl - 23\<^esup>\<close>.
\<close>

definition f32_quotient :: "nat \<Rightarrow> nat \<Rightarrow> real" where
  "f32_quotient n d =
     (let k = int (bit_length n) - int (bit_length d);
          fl = (if int d * 2 ^ nat k \<le> int n * 2 ^ nat (- k) then k else k - 1);
          ex = fl - 23
      in of_int (round_half_even (int n * 2 ^ nat (- ex)) (int d * 2 ^ nat ex)) * 2 powi ex)"

text \<open>The conversion of an integer to float32; the result is an integer again.\<close>

definition f32_of_int :: "int \<Rightarrow> int" where
  "f32_of_int v =
     (let ex = int (bit_length (nat \<bar>v\<bar>)) - 24
      in if ex \<le> 0 then v
         else sgn v * round_half_even \<bar>v\<bar> (2 ^ nat ex) * 2 ^ nat ex)"

definition true_divide :: "int \<Rightarrow> int \<Rightarrow> tfloat" where
  "true_divide a b =
     (let fa = f32_of_int a; fb = f32_of_int b
      in if fb = 0 then (if fa > 0 then PosInf else if fa < 0 then NegInf else NaN)
         else if fa = 0 then (if fb < 0 then NegZero else Finite 0)
         else Finite (of_int (sgn fa * sgn fb) * f32_quotient (nat \<bar>fa\<bar>) (nat \<bar>fb\<bar>)))"

fun per_class_row :: "stat_row \<Rightarrow> tfloat \<times> int" where
  "per_class_row (tp, fp, tn, fneg, supp) = (true_divide tp supp, supp)"

text \<open>The true positives and the support of a row of statistics.\<close>

fun stat_tp :: "stat_row \<Rightarrow> int" where
  "stat_tp (tp, fp, tn, fneg, supp) = tp"

fun stat_sup :: "stat_row \<Rightarrow> int" where
  "stat_sup (tp, fp, tn, fneg, supp) = supp"

definition on_test_epoch_end :: "model \<Rightarrow> unit res" where
  "on_test_epoch_end self =
     (case stack_sum (test_metric_outputs self) of
        Inl err \<Rightarrow> ([], Inl err)
      | Inr combined_stats \<Rightarrow>
          ([To_csv ''per-class-acc-test.csv'' [''acc'', ''n''] (map per_class_row combined_stats)],
           Inr ()))"

text \<open>
  Lines 364 to 419, \<^verbatim>\<open>configure_optimizers\<close>. The constructor of an optimizer or of a
  scheduler can reject its arguments, as the library decides.
\<close>

record lr_scheduler_dict =
  sched_scheduler :: scheduler_obj
  sched_interval :: string

record optimizers_dict =
  dict_optimizer :: optimizer_obj
  dict_lr_scheduler :: lr_scheduler_dict

text \<open>\<^verbatim>\<open>int(v)\<close> on the number of steps: an infinite float raises an OverflowError.\<close>

definition py_int :: "stepping_batches \<Rightarrow> error + int" where
  "py_int v =
     (case v of
        Steps n \<Rightarrow> Inr n
      | Infinite_steps \<Rightarrow> Inl (OverflowError ''cannot convert float infinity to integer''))"

definition optimizer_error_message :: "string \<Rightarrow> string" where
  "optimizer_error_message name =
     name @ '' is not an available optimizer. Should be one of ''
       @ py_repr_list [''adam'', ''adamw'', ''sgd'']"

definition scheduler_error_message :: "string \<Rightarrow> string" where
  "scheduler_error_message name =
     name @ '' is not an available optimizer. Should be one of ''
       @ py_repr_list [''cosine'', ''none'']"

definition make_optimizer :: "env \<Rightarrow> model \<Rightarrow> error + optimizer_obj" where
  "make_optimizer e self =
     (let ps = named_parameters (net self) in
      if optimizer self = ''adam''
        then construct (lib_new_optimizer e) (Adam ps (lr self) (betas self) (weight_decay self))
      else if optimizer self = ''adamw''
        then construct (lib_new_optimizer e) (AdamW ps (lr self) (betas self) (weight_decay self))
      else if optimizer self = ''sgd''
        then construct (lib_new_optimizer e) (SGD ps (lr self) (momentum self) (weight_decay self))
      else if optimizer self = ''adamw4bit''
        then construct (lib_new_optimizer e)
               (Lpmm_AdamW ps (lr self) (betas self) (weight_decay self))
      else Inl (ValueError (optimizer_error_message (optimizer self))))"

definition make_scheduler :: "env \<Rightarrow> model \<Rightarrow> optimizer_obj \<Rightarrow> error + scheduler_obj" where
  "make_scheduler e self opt =
     (if scheduler self = ''cosine''
        then (case lib_value (lib_estimated_stepping_batches e) of
                Inl err \<Rightarrow> Inl err
              | Inr v \<Rightarrow>
                  (case py_int v of
                     Inl err \<Rightarrow> Inl err
                   | Inr num_training_steps \<Rightarrow>
                       construct (lib_new_scheduler e)
                         (Cosine_schedule_with_warmup opt num_training_steps (warmup_steps self))))
      else if scheduler self = ''none''
        then construct (lib_new_scheduler e) (LambdaLR opt (\<lambda>_. 1))
      else Inl (ValueError (scheduler_error_message (scheduler self))))"

definition configure_optimizers :: "env \<Rightarrow> model \<Rightarrow> error + optimizers_dict" where
  "configure_optimizers e self =
     (case make_optimizer e self of
        Inl err \<Rightarrow> Inl err
      | Inr opt \<Rightarrow>
          (case make_scheduler e self opt of
             Inl err \<Rightarrow> Inl err
           | Inr sch \<Rightarrow>
               Inr \<lparr> dict_optimizer = opt,
                     dict_lr_scheduler = \<lparr> sched_scheduler = sch, sched_interval = ''step'' \<rparr> \<rparr>))"

text \<open>
  A call of one of the methods of the class on an object, with the object after the call.
  The methods that assign no field return the object as it was.
\<close>

datatype method_call =
    Call_forward "sample list"
  | Call_gact_backward
  | Call_shared_step "sample list \<times> int list" string
  | Call_training_step "sample list \<times> int list"
  | Call_validation_step "sample list \<times> int list"
  | Call_test_step "sample list \<times> int list"
  | Call_on_test_epoch_end
  | Call_configure_optimizers

fun call_method :: "env \<Rightarrow> model \<Rightarrow> method_call \<Rightarrow> model \<times> event list" where
  "call_method e self (Call_forward x) = (self, fst (forward e self x))"
| "call_method e self Call_gact_backward = (self, fst (gact_backward e self))"
| "call_method e self (Call_shared_step batch mode) =
     (case shared_step e self batch mode of (self', es, _) \<Rightarrow> (self', es))"
| "call_method e self (Call_training_step batch) =
     (case training_step e self batch of (self', es, _) \<Rightarrow> (self', es))"
| "call_method e self (Call_validation_step batch) =
     (case validation_step e self batch of (self', es, _) \<Rightarrow> (self', es))"
| "call_method e self (Call_test_step batch) =
     (case test_step e self batch of (self', es, _) \<Rightarrow> (self', es))"
| "call_method e self Call_on_test_epoch_end = (self, fst (on_test_epoch_end self))"
| "call_method e self Call_configure_optimizers = (self, [])"

text \<open>The calls that are a training step, and those whose augmentation returns.\<close>

fun is_training_call :: "method_call \<Rightarrow> bool" where
  "is_training_call (Call_shared_step batch mode) = (mode = ''train'')"
| "is_training_call (Call_training_step batch) = True"
| "is_training_call _ = False"

fun mixup_returns :: "env \<Rightarrow> method_call \<Rightarrow> bool" where
  "mixup_returns e (Call_shared_step batch mode) =
     (if mode = ''train'' then \<not> isl (lib_mixup e (fst batch) (snd batch)) else True)"
| "mixup_returns e (Call_training_step batch) = (\<not> isl (lib_mixup e (fst batch) (snd batch)))"
| "mixup_returns e _ = True"

fun run_calls :: "env \<Rightarrow> model \<Rightarrow> method_call list \<Rightarrow> model \<times> event list" where
  "run_calls e self [] = (self, [])"
| "run_calls e self (c # cs) =
     (case call_method e self c of
        (self', es) \<Rightarrow> (case run_calls e self' cs of (self'', es') \<Rightarrow> (self'', es @ es')))"

text \<open>
  What the checkpoint loading is said to keep: the entries whose key starts with
  \<^verbatim>\<open>net\<close>, in their order, each under its key with every \<^verbatim>\<open>net.\<close> removed.
\<close>

definition kept_entries :: "(string \<times> real list) list \<Rightarrow> (string \<times> real list) list" where
  "kept_entries ckpt =
     map (\<lambda>(k, v). (str_remove ''net.'' k, v)) (filter (\<lambda>(k, v). startswith k ''net'') ckpt)"

section \<open>An environment and a network for concrete runs\<close>

definition example_net :: network where
  "example_net =
     \<lparr> named_parameters =
         [(''vit.embeddings.cls_token'', \<lparr> requires_grad = True, data = [0] \<rparr>),
          (''vit.encoder.layer.0.attention.attention.query.weight'',
             \<lparr> requires_grad = True, data = [1, 2] \<rparr>),
          (''classifier.weight'', \<lparr> requires_grad = True, data = [3, 4] \<rparr>),
          (''classifier.bias'', \<lparr> requires_grad = True, data = [5] \<rparr>)] \<rparr>"

text \<open>
  Two checkpoint files. The first was saved from an object of the class with the network
  above; the second has a module whose name ends in \<^verbatim>\<open>net\<close>.
\<close>

definition example_checkpoint :: "string \<Rightarrow> error + (string \<times> real list) list" where
  "example_checkpoint w =
     (if w = ''probe.ckpt'' then
        Inr [(''net.vit.embeddings.cls_token'', [6]),
             (''net.vit.encoder.layer.0.attention.attention.query.weight'', [7, 8]),
             (''net.classifier.weight'', [9, 10]),
             (''net.classifier.bias'', [11]),
             (''loss_fn.weight'', [1])]
      else if w = ''subnet.ckpt'' then
        Inr [(''net.classifier.bias'', [7]), (''net.vit.subnet.weight'', [8]),
             (''loss_fn.weight'', [1])]
      else Inl (OSError ''No such file or directory''))"

text \<open>
  A strict load wants the keys of the state dict to be the names of the parameters, and
  then gives every parameter the values under its name.
\<close>

definition example_load_state_dict ::
  "network \<Rightarrow> (string \<times> real list) list \<Rightarrow> bool \<Rightarrow> error + network" where
  "example_load_state_dict n sd strict =
     (if strict
         \<and> \<not> (list_all (\<lambda>k. k \<in> set (map fst (named_parameters n))) (map fst sd)
                \<and> list_all (\<lambda>k. k \<in> set (map fst sd)) (map fst (named_parameters n)))
      then Inl (RuntimeError ''Error(s) in loading state_dict'')
      else Inr (n\<lparr>named_parameters :=
                   map (\<lambda>(k, p). (k, case map_of sd k of None \<Rightarrow> p | Some v \<Rightarrow> p\<lparr>data := v\<rparr>))
                     (named_parameters n)\<rparr>))"

text \<open>The metrics want two classes or more, the optimizers a learning rate that is not negative.\<close>

definition example_new_metric :: "metric \<Rightarrow> error option" where
  "example_new_metric m =
     (case m of
        Accuracy n k \<Rightarrow>
          if n < 2 then Some (ValueError ''Expected argument num_classes to be an integer larger than 1'')
          else None
      | StatScores n \<Rightarrow>
          if n < 2 then Some (ValueError ''Expected argument num_classes to be an integer larger than 1'')
          else None)"

definition optimizer_lr :: "optimizer_obj \<Rightarrow> real" where
  "optimizer_lr opt =
     (case opt of
        Adam ps l b w \<Rightarrow> l
      | AdamW ps l b w \<Rightarrow> l
      | SGD ps l m w \<Rightarrow> l
      | Lpmm_AdamW ps l b w \<Rightarrow> l)"

definition example_new_optimizer :: "optimizer_obj \<Rightarrow> error option" where
  "example_new_optimizer opt =
     (if optimizer_lr opt < 0 then Some (ValueError ''Invalid learning rate'') else None)"

definition example_env :: env where
  "example_env =
     \<lparr> lib_from_config = (\<lambda>_ _ _. Inr example_net),
       lib_from_pretrained = (\<lambda>_ _ _ _. Inr example_net),
       lib_torch_load = example_checkpoint,
       lib_load_state_dict = example_load_state_dict,
       lib_get_peft_model = (\<lambda>n _. Inr n),
       lib_new_metric = example_new_metric,
       lib_mixup = (\<lambda>x y. case one_hot y 2 of Inl err \<Rightarrow> Inl err | Inr t \<Rightarrow> Inr (x, t)),
       lib_forward = (\<lambda>_ x. Inr (map (\<lambda>_. [1, 0]) x)),
       lib_loss_fn = (\<lambda>_ _. Inr 0),
       lib_argmax = (\<lambda>y. Inr (map (\<lambda>row. if row = [0, 1] then 1 else 0) y)),
       lib_metric = (\<lambda>m _ _. Inr (case m of Accuracy _ _ \<Rightarrow> Scalar 1
                                | StatScores _ \<Rightarrow> Stats [(1, 0, 0, 0, 1), (0, 0, 1, 0, 0)])),
       lib_iterate = Inr 1,
       lib_raises = (\<lambda>_. None),
       lib_current_lr = 1 / 100,
       lib_new_optimizer = example_new_optimizer,
       lib_estimated_stepping_batches = Inr (Steps 100),
       lib_new_scheduler = (\<lambda>_. None) \<rparr>"

text \<open>An object as the constructor leaves it, for the default arguments and two classes.\<close>

definition example_model :: model where
  "example_model = new_model (default_hparams\<lparr>n_classes := 2\<rparr>) example_net"

text \<open>The same object with the activation compression on.\<close>

definition gact_model :: model where
  "gact_model = example_model\<lparr>open_gact := True\<rparr>"


section \<open>Calls into libraries\<close>

lemma res_bind_Inl [simp]: "res_bind (es, Inl err) f = (es, Inl err)"
  by (simp add: res_bind_def)

lemma res_bind_Inr [simp]: "res_bind (es, Inr v) f = (es @ fst (f v), snd (f v))"
  by (simp add: res_bind_def case_prod_beta)

lemma res_bind_return [simp]: "res_bind (res_return v) f = f v"
  by (simp add: res_return_def)

lemma res_return_simps [simp]:
  "fst (res_return v) = []"
  "snd (res_return v) = Inr v"
  "res_return v = (es, Inr w) \<longleftrightarrow> es = [] \<and> w = v"
  "res_return v \<noteq> (es, Inl err)"
  by (auto simp: res_return_def)

lemma fst_res_bind:
  "fst (res_bind r f) = fst r @ (case snd r of Inl err \<Rightarrow> [] | Inr v \<Rightarrow> fst (f v))"
  by (cases r; cases "snd r") simp_all


lemma res_bind_eq_Inr:
  "res_bind r f = (es, Inr b) \<longleftrightarrow>
     (\<exists>es1 a es2. r = (es1, Inr a) \<and> f a = (es2, Inr b) \<and> es = es1 @ es2)"
proof (cases r)
  case (Pair es0 x)
  show ?thesis
  proof (cases x)
    case (Inl err0)
    with Pair show ?thesis by auto
  next
    case (Inr v)
    with Pair show ?thesis by (cases "f v") auto
  qed
qed

lemma res_bind_eq_Inl:
  "res_bind r f = (es, Inl err) \<longleftrightarrow>
     (r = (es, Inl err)
      \<or> (\<exists>es1 a es2. r = (es1, Inr a) \<and> f a = (es2, Inl err) \<and> es = es1 @ es2))"
proof (cases r)
  case (Pair es0 x)
  show ?thesis
  proof (cases x)
    case (Inl err0)
    with Pair show ?thesis by auto
  next
    case (Inr v)
    with Pair show ?thesis by (cases "f v") auto
  qed
qed

lemma lib_value_simps [simp]:
  "lib_value (Inl err) = Inl (In_library err)"
  "lib_value (Inr v) = Inr v"
  by (simp_all add: lib_value_def)

lemma lib_value_eq_Inr [simp]: "lib_value r = Inr v \<longleftrightarrow> r = Inr v"
  by (cases r) simp_all

lemma lib_value_eq_Inl: "lib_value r = Inl err \<longleftrightarrow> (\<exists>err'. r = Inl err' \<and> err = In_library err')"
  by (cases r) auto

lemma lib_call_eq_Inr [simp]: "lib_call ev r = (es, Inr v) \<longleftrightarrow> es = [ev] \<and> r = Inr v"
  by (auto simp: lib_call_def)

lemma lib_call_eq_Inl:
  "lib_call ev r = (es, Inl err) \<longleftrightarrow> es = [ev] \<and> (\<exists>err'. r = Inl err' \<and> err = In_library err')"
  by (auto simp: lib_call_def lib_value_eq_Inl)

lemma fst_lib_call [simp]: "fst (lib_call ev r) = [ev]"
  by (simp add: lib_call_def)

lemma snd_lib_call [simp]: "snd (lib_call ev r) = lib_value r"
  by (simp add: lib_call_def)

lemma fst_effect [simp]: "fst (effect e ev) = [ev]"
  by (simp add: effect_def)

lemma effect_eq_Inr [simp]: "effect e ev = (es, Inr u) \<longleftrightarrow> es = [ev] \<and> lib_raises e ev = None"
  by (auto simp: effect_def split: option.splits)

lemma effect_eq_Inl:
  "effect e ev = (es, Inl err) \<longleftrightarrow>
     es = [ev] \<and> (\<exists>err'. lib_raises e ev = Some err' \<and> err = In_library err')"
  by (auto simp: effect_def lib_call_eq_Inl split: option.splits)

lemma effect_None: "lib_raises e ev = None \<Longrightarrow> effect e ev = ([ev], Inr ())"
  by (simp add: effect_def lib_call_def)

lemma construct_eq_Inr [simp]: "construct check obj = Inr v \<longleftrightarrow> check obj = None \<and> v = obj"
  by (auto simp: construct_def split: option.splits)

lemma construct_eq_Inl:
  "construct check obj = Inl err \<longleftrightarrow> (\<exists>err'. check obj = Some err' \<and> err = In_library err')"
  by (auto simp: construct_def split: option.splits)

section \<open>The stages of the constructor\<close>

lemma mode_msg_rev: "take 3 (rev (mode_error_message m)) = rev [CHR ''a'', squote, CHR '']'']"
  by (simp add: mode_error_message_def py_repr_list_def py_repr_str_def)

lemma model_msg_rev: "take 3 (rev (model_error_message m)) = rev [CHR ''k'', squote, CHR '']'']"
  by (simp add: model_error_message_def py_repr_list_def py_repr_str_def MODEL_DICT_def)

lemma messages_differ: "model_error_message n \<noteq> mode_error_message m"
proof
  assume "model_error_message n = mode_error_message m"
  then have "take 3 (rev (model_error_message n)) = take 3 (rev (mode_error_message m))" by simp
  then show False unfolding mode_msg_rev model_msg_rev by simp
qed

lemma str_in_middle: "str_in k s \<Longrightarrow> str_in k (a @ s @ b)"
  unfolding str_in_def by (meson sublist_appendI sublist_order.order.trans)

lemma str_in_self: "str_in k (a @ k @ b)"
  unfolding str_in_def by (rule sublist_appendI)

lemma str_in_repr: "str_in k (py_repr_str k)"
  using str_in_self [of k "[squote]" "[squote]"] by (simp add: py_repr_str_def)

lemma str_in_join: "k \<in> set ks \<Longrightarrow> str_in k (join_comma (map py_repr_str ks))"
proof (induction ks rule: join_comma.induct)
  case 1 then show ?case by simp
next
  case (2 s)
  then show ?case by (simp add: str_in_repr)
next
  case (3 s t ss)
  show ?case
  proof (cases "k = s")
    case True
    have "str_in k ([] @ py_repr_str k @ ('', '' @ join_comma (map py_repr_str (t # ss))))"
      by (rule str_in_middle) (rule str_in_repr)
    with True show ?thesis by simp
  next
    case False
    with 3 have "str_in k (join_comma (map py_repr_str (t # ss)))" by simp
    then have "str_in k ((py_repr_str s @ '', '') @ join_comma (map py_repr_str (t # ss)) @ [])"
      by (rule str_in_middle)
    then show ?thesis by simp
  qed
qed

lemma str_in_repr_list: "k \<in> set ks \<Longrightarrow> str_in k (py_repr_list ks)"
  unfolding py_repr_list_def by (rule str_in_middle) (rule str_in_join)

lemma lookup_model_path_cases:
  "lookup_model_path name =
     (case map_of MODEL_DICT name of
        None \<Rightarrow> Inl (ValueError (model_error_message name))
      | Some p \<Rightarrow> Inr p)"
  by (simp add: lookup_model_path_def dict_getitem_def split: option.splits)

lemma distinct_MODEL_DICT: "distinct (map fst MODEL_DICT)"
  by (simp add: MODEL_DICT_def)

lemma lookup_model_path_key:
  "lookup_model_path name = Inr p \<longleftrightarrow> (name, p) \<in> set MODEL_DICT"
  by (simp add: lookup_model_path_cases map_of_eq_Some_iff [OF distinct_MODEL_DICT, symmetric]
        split: option.splits)

lemma build_network_bad_name:
  "map_of MODEL_DICT (model_name hp) = None \<Longrightarrow>
   build_network e hp = ([], Inl (ValueError (model_error_message (model_name hp))))"
  by (simp add: build_network_def lookup_model_path_cases)

lemma init_bad_name:
  "map_of MODEL_DICT (model_name hp) = None \<Longrightarrow>
   init e hp = ([], Inl (ValueError (model_error_message (model_name hp))))"
  by (simp add: init_def build_network_bad_name)

lemma build_network_good_name:
  "map_of MODEL_DICT (model_name hp) = Some p \<Longrightarrow>
   build_network e hp = res_bind (init_network e hp p) (load_checkpoint e hp)"
  by (simp add: build_network_def lookup_model_path_cases)

lemma init_network_errors:
  "init_network e hp p = (es, Inl err) \<Longrightarrow>
   (err = AssertionError quantization_error_message
      \<and> es = [] \<and> use_4bit hp \<and> \<not> from_scratch hp \<and> training_mode hp = ''full'')
   \<or> (\<exists>err'. err = In_library err')"
  by (auto simp: init_network_def res_bind_eq_Inl effect_eq_Inl lib_call_eq_Inl split: if_splits)

lemma load_checkpoint_errors:
  "load_checkpoint e hp n = (es, Inl err) \<Longrightarrow> \<exists>err'. err = In_library err'"
  by (auto simp: load_checkpoint_def res_return_def res_bind_eq_Inl lib_call_eq_Inl Let_def
        split: option.splits if_splits)

lemma prepare_mode_errors:
  "prepare_mode e hp n = (es, Inl err) \<Longrightarrow>
   (err = ValueError (mode_error_message (training_mode hp))
      \<and> es = [] \<and> training_mode hp \<notin> {''full'', ''linear'', ''lora''})
   \<or> (\<exists>err'. err = In_library err')"
  by (auto simp: prepare_mode_def res_return_def lib_call_eq_Inl split: if_splits)

lemma finish_init_errors:
  "finish_init e hp n = (es, Inl err) \<Longrightarrow> \<exists>err'. err = In_library err'"
  by (auto simp: finish_init_def gact_setup_def res_return_def res_bind_eq_Inl effect_eq_Inl
        lib_call_eq_Inl split: option.splits if_splits)

lemma build_network_errors:
  "build_network e hp = (es, Inl err) \<Longrightarrow>
   err = ValueError (model_error_message (model_name hp))
   \<or> err = AssertionError quantization_error_message
   \<or> (\<exists>err'. err = In_library err')"
  by (cases "map_of MODEL_DICT (model_name hp)")
     (auto simp: build_network_bad_name build_network_good_name res_bind_eq_Inl
        dest: init_network_errors load_checkpoint_errors)

lemma init_errors:
  "init e hp = (es, Inl err) \<Longrightarrow>
   err = ValueError (model_error_message (model_name hp))
   \<or> err = AssertionError quantization_error_message
   \<or> err = ValueError (mode_error_message (training_mode hp))
   \<or> (\<exists>err'. err = In_library err')"
  by (auto simp: init_def res_bind_eq_Inl
        dest: build_network_errors prepare_mode_errors finish_init_errors)

lemma init_good_name:
  assumes "map_of MODEL_DICT (model_name hp) = Some p"
  shows "snd (init e hp) \<noteq> Inl (ValueError (model_error_message name))"
proof
  assume a: "snd (init e hp) = Inl (ValueError (model_error_message name))"
  then obtain es where i: "init e hp = (es, Inl (ValueError (model_error_message name)))"
    by (cases "init e hp") simp
  then have "\<not> (\<exists>es'. build_network e hp = (es', Inl (ValueError (model_error_message name))))"
    using assms
    by (auto simp: build_network_good_name res_bind_eq_Inl
          dest: init_network_errors load_checkpoint_errors)
  with i show False
    by (auto simp: init_def res_bind_eq_Inl messages_differ
          dest: prepare_mode_errors finish_init_errors)
qed


lemma load_checkpoint_none:
  "weights hp = None \<or> weights hp = Some [] \<Longrightarrow> load_checkpoint e hp n = ([], Inr n)"
  by (auto simp: load_checkpoint_def res_return_def)

lemma load_checkpoint_some:
  "weights hp = Some w \<Longrightarrow> w \<noteq> [] \<Longrightarrow>
   load_checkpoint e hp n =
     res_bind (lib_call (Torch_load w) (lib_torch_load e w))
       (\<lambda>ckpt. lib_call (Load_state_dict (strip_prefix_loop [] ckpt) True)
                 (lib_load_state_dict e n (strip_prefix_loop [] ckpt) True))"
  by (simp add: load_checkpoint_def Let_def)



lemma build_network_key:
  "(model_name hp, p) \<in> set MODEL_DICT \<Longrightarrow>
   build_network e hp = res_bind (init_network e hp p) (load_checkpoint e hp)"
  using lookup_model_path_key [of "model_name hp" p] by (simp add: build_network_def)

lemma init_from_build:
  "build_network e hp = (es, Inr n) \<Longrightarrow>
   init e hp = (es @ fst (res_bind (prepare_mode e hp n) (finish_init e hp)),
                snd (res_bind (prepare_mode e hp n) (finish_init e hp)))"
  by (simp add: init_def)



lemma prepare_mode_full: "training_mode hp = ''full'' \<Longrightarrow> prepare_mode e hp n = ([], Inr n)"
  by (simp add: prepare_mode_def res_return_def)

lemma new_model_fields [simp]:
  "net (new_model hp n) = n"
  "train_step (new_model hp n) = 0"
  "val_step (new_model hp n) = 0"
  "test_metric_outputs (new_model hp n) = []"
  "partial_x (new_model hp n) = None"
  "partial_y (new_model hp n) = None"
  "train_metrics (new_model hp n) = accuracy_metrics hp"
  "val_metrics (new_model hp n) = accuracy_metrics hp"
  "test_metrics (new_model hp n) = stats_metrics hp"
  "n_classes (new_model hp n) = n_classes hp"
  "open_gact (new_model hp n) = open_gact hp"
  "optimizer (new_model hp n) = optimizer hp"
  "scheduler (new_model hp n) = scheduler hp"
  "lr (new_model hp n) = lr hp"
  "betas (new_model hp n) = betas hp"
  "momentum (new_model hp n) = momentum hp"
  "weight_decay (new_model hp n) = weight_decay hp"
  "warmup_steps (new_model hp n) = warmup_steps hp"
  by (simp_all add: new_model_def hparams.defs model.defs)

lemma finish_init_result:
  "finish_init e hp n = (es, Inr m) \<Longrightarrow> m = new_model hp n"
  by (auto simp: finish_init_def res_bind_eq_Inr res_return_def split: option.splits)

lemma init_result:
  "init e hp = (es, Inr m) \<Longrightarrow>
   \<exists>es1 n es2 n' es3. build_network e hp = (es1, Inr n) \<and> prepare_mode e hp n = (es2, Inr n')
      \<and> finish_init e hp n' = (es3, Inr m) \<and> m = new_model hp n' \<and> es = es1 @ es2 @ es3"
  by (auto simp: init_def res_bind_eq_Inr dest: finish_init_result)

lemma example_metrics_ok:
  "2 \<le> n_classes hp \<Longrightarrow>
   first_error (lib_new_metric example_env)
     (map snd (accuracy_metrics hp @ accuracy_metrics hp @ stats_metrics hp)) = None"
  by (simp add: example_env_def example_new_metric_def accuracy_metrics_def stats_metrics_def)

lemma example_build_default:
  "model_name hp = ''vit-b16-224-in21k'' \<Longrightarrow> \<not> from_scratch hp \<Longrightarrow> \<not> use_4bit hp \<Longrightarrow>
   weights hp = None \<Longrightarrow>
   build_network example_env hp
     = ([From_pretrained ''google/vit-base-patch16-224-in21k'' (n_classes hp) (image_size hp) False],
        Inr example_net)"
  by (simp add: build_network_def lookup_model_path_def dict_getitem_def MODEL_DICT_def
        init_network_def load_checkpoint_def lib_call_def example_env_def)

lemma example_finish_init:
  "2 \<le> n_classes hp \<Longrightarrow> \<not> open_gact hp \<Longrightarrow>
   finish_init example_env hp n
     = ([Wandb_init (model_name hp @ ''_'' @ training_mode hp)
           (lr hp, batch_size hp, optimizer hp, scheduler hp, gact_level hp, use_4bit hp)],
        Inr (new_model hp n))"
  using example_metrics_ok [of hp]
  by (simp add: finish_init_def gact_setup_def lib_call_def)

lemma init_example_default:
  "init example_env default_hparams =
    ([From_pretrained ''google/vit-base-patch16-224-in21k'' 10 224 False,
      Wandb_init ''vit-b16-224-in21k_full'' (1 / 100, 32, ''sgd'', ''cosine'', ''L0'', False)],
     Inr (new_model default_hparams example_net))"
proof -
  have b: "build_network example_env default_hparams
     = ([From_pretrained ''google/vit-base-patch16-224-in21k'' 10 224 False], Inr example_net)"
    using example_build_default [of default_hparams] by (simp add: default_hparams_def)
  have f: "\<And>n. finish_init example_env default_hparams n
     = ([Wandb_init ''vit-b16-224-in21k_full'' (1 / 100, 32, ''sgd'', ''cosine'', ''L0'', False)],
        Inr (new_model default_hparams n))"
    using example_finish_init [of default_hparams] by (simp add: default_hparams_def)
  have t: "training_mode default_hparams = ''full''" by (simp add: default_hparams_def)
  show ?thesis
    by (simp add: init_def b f prepare_mode_def t)
qed


section \<open>The model name\<close>

text \<open>
  Claim C7. For a model name that is not a key of \<open>MODEL_DICT\<close> the lookup raises, the
  constructor turns the exception into a ValueError before any library is called, and the
  message lists every available model name. For a key the lookup yields the checkpoint
  path of the table, and the constructor raises no error of that kind.
\<close>

theorem model_name_lookup:
  "(model_name hp \<notin> set (map fst MODEL_DICT) \<longrightarrow>
      (\<exists>err. dict_getitem MODEL_DICT (model_name hp) = Inl err)
      \<and> init e hp = ([], Inl (ValueError (model_error_message (model_name hp))))
      \<and> (\<forall>k \<in> set (map fst MODEL_DICT). str_in k (model_error_message (model_name hp))))
   \<and> (\<forall>p. (model_name hp, p) \<in> set MODEL_DICT \<longrightarrow>
          lookup_model_path (model_name hp) = Inr p
          \<and> (\<forall>name. snd (init e hp) \<noteq> Inl (ValueError (model_error_message name))))"
proof (intro conjI impI allI)
  assume bad: "model_name hp \<notin> set (map fst MODEL_DICT)"
  then have none: "map_of MODEL_DICT (model_name hp) = None"
    by (simp add: map_of_eq_None_iff)
  show "\<exists>err. dict_getitem MODEL_DICT (model_name hp) = Inl err"
    by (simp add: dict_getitem_def none)
  show "init e hp = ([], Inl (ValueError (model_error_message (model_name hp))))"
    using none by (rule init_bad_name)
  show "\<forall>k \<in> set (map fst MODEL_DICT). str_in k (model_error_message (model_name hp))"
  proof
    fix k assume "k \<in> set (map fst MODEL_DICT)"
    then have "str_in k (py_repr_list (map fst MODEL_DICT))" by (rule str_in_repr_list)
    then have "str_in k ((model_name hp @ '' is not an available model. Should be one of '')
                 @ py_repr_list (map fst MODEL_DICT) @ [])"
      by (rule str_in_middle)
    then show "str_in k (model_error_message (model_name hp))"
      by (simp add: model_error_message_def)
  qed
next
  fix p assume "(model_name hp, p) \<in> set MODEL_DICT"
  then have some: "map_of MODEL_DICT (model_name hp) = Some p"
    using distinct_MODEL_DICT by (rule map_of_is_SomeI [rotated])
  show "lookup_model_path (model_name hp) = Inr p"
    by (simp add: lookup_model_path_cases some)
  fix name
  show "snd (init e hp) \<noteq> Inl (ValueError (model_error_message name))"
    using some by (rule init_good_name)
qed

theorem model_name_lookup_witness:
  "''resnet50'' \<notin> set (map fst MODEL_DICT)
   \<and> init example_env (default_hparams\<lparr>model_name := ''resnet50''\<rparr>)
       = ([], Inl (ValueError (model_error_message ''resnet50'')))
   \<and> str_in ''vit-b16-384'' (model_error_message ''resnet50'')
   \<and> (''vit-b16-384'', ''google/vit-base-patch16-384'') \<in> set MODEL_DICT
   \<and> lookup_model_path ''vit-b16-384'' = Inr ''google/vit-base-patch16-384''
   \<and> snd (init example_env (default_hparams\<lparr>model_name := ''vit-b16-384''\<rparr>))
       \<noteq> Inl (ValueError (model_error_message ''vit-b16-384''))"
proof -
  have bad: "''resnet50'' \<notin> set (map fst MODEL_DICT)"
    by (simp add: MODEL_DICT_def)
  have good: "(''vit-b16-384'', ''google/vit-base-patch16-384'') \<in> set MODEL_DICT"
    by (simp add: MODEL_DICT_def)
  have k: "''vit-b16-384'' \<in> set (map fst MODEL_DICT)"
    by (simp add: MODEL_DICT_def)
  show ?thesis
    using model_name_lookup [of "default_hparams\<lparr>model_name := ''resnet50''\<rparr>" example_env]
      model_name_lookup [of "default_hparams\<lparr>model_name := ''vit-b16-384''\<rparr>" example_env]
      bad good k
    by fastforce
qed

section \<open>The fine-tuning mode\<close>






lemma init_full_net:
  "training_mode hp = ''full'' \<Longrightarrow> init e hp = (es, Inr m) \<Longrightarrow>
   \<exists>es0. build_network e hp = (es0, Inr (net m))"
  by (auto simp: prepare_mode_full dest!: init_result)






section \<open>Linear probing\<close>

lemma freeze_fst: "fst (freeze np) = fst np"
  by (simp add: freeze_def)

lemma freeze_snd:
  "snd (freeze np) =
     (if str_in ''classifier'' (fst np) then snd np else (snd np)\<lparr>requires_grad := False\<rparr>)"
  by (simp add: freeze_def)

lemma init_linear_net:
  "training_mode hp = ''linear'' \<Longrightarrow> init e hp = (es, Inr m) \<Longrightarrow>
   \<exists>es0 n0. build_network e hp = (es0, Inr n0)
     \<and> named_parameters (net m) = map freeze (named_parameters n0)"
  by (auto simp: prepare_mode_def res_return_def dest!: init_result)

text \<open>
  Claim C1. When the constructor is called with the mode \<^verbatim>\<open>linear\<close> and returns an
  object, the parameters of its network are those of the network that was built, under
  the same names and in the same order; a parameter whose name contains \<^verbatim>\<open>classifier\<close>
  is untouched, so it keeps its \<^verbatim>\<open>requires_grad\<close>, and every other parameter has
  \<^verbatim>\<open>requires_grad\<close> false and its values as before.
\<close>

theorem linear_probing_freezes_backbone:
  assumes "training_mode hp = ''linear''" and "init e hp = (es, Inr m)"
  shows "\<exists>es0 n0. build_network e hp = (es0, Inr n0)
     \<and> map fst (named_parameters (net m)) = map fst (named_parameters n0)
     \<and> (\<forall>i < length (named_parameters n0).
          if str_in ''classifier'' (fst (named_parameters n0 ! i))
          then snd (named_parameters (net m) ! i) = snd (named_parameters n0 ! i)
          else snd (named_parameters (net m) ! i)
                 = (snd (named_parameters n0 ! i))\<lparr>requires_grad := False\<rparr>)
     \<and> (\<forall>np \<in> set (named_parameters (net m)).
          \<not> str_in ''classifier'' (fst np) \<longrightarrow> \<not> requires_grad (snd np))"
proof -
  from assms obtain es0 n0 where b: "build_network e hp = (es0, Inr n0)"
    and p: "named_parameters (net m) = map freeze (named_parameters n0)"
    using init_linear_net by blast
  have 1: "map fst (named_parameters (net m)) = map fst (named_parameters n0)"
    by (simp add: p freeze_fst)
  have 2: "\<forall>i < length (named_parameters n0).
          if str_in ''classifier'' (fst (named_parameters n0 ! i))
          then snd (named_parameters (net m) ! i) = snd (named_parameters n0 ! i)
          else snd (named_parameters (net m) ! i)
                 = (snd (named_parameters n0 ! i))\<lparr>requires_grad := False\<rparr>"
    by (simp add: p freeze_snd)
  have 3: "\<forall>np \<in> set (named_parameters (net m)).
          \<not> str_in ''classifier'' (fst np) \<longrightarrow> \<not> requires_grad (snd np)"
    by (auto simp: p freeze_fst freeze_snd)
  from b 1 2 3 show ?thesis by blast
qed

lemma init_example_linear:
  "init example_env (default_hparams\<lparr>training_mode := ''linear''\<rparr>) =
    ([From_pretrained ''google/vit-base-patch16-224-in21k'' 10 224 False,
      Wandb_init ''vit-b16-224-in21k_linear'' (1 / 100, 32, ''sgd'', ''cosine'', ''L0'', False)],
     Inr (new_model (default_hparams\<lparr>training_mode := ''linear''\<rparr>)
        (example_net\<lparr>named_parameters := map freeze (named_parameters example_net)\<rparr>)))"
proof -
  let ?hp = "default_hparams\<lparr>training_mode := ''linear''\<rparr>"
  have b: "build_network example_env ?hp
     = ([From_pretrained ''google/vit-base-patch16-224-in21k'' 10 224 False], Inr example_net)"
    using example_build_default [of ?hp] by (simp add: default_hparams_def)
  have f: "\<And>n. finish_init example_env ?hp n
     = ([Wandb_init ''vit-b16-224-in21k_linear'' (1 / 100, 32, ''sgd'', ''cosine'', ''L0'', False)],
        Inr (new_model ?hp n))"
    using example_finish_init [of ?hp] by (simp add: default_hparams_def)
  show ?thesis
    by (simp add: init_def b f prepare_mode_def)
qed

theorem linear_probing_freezes_backbone_witness:
  "training_mode (default_hparams\<lparr>training_mode := ''linear''\<rparr>) = ''linear''
   \<and> (case snd (init example_env (default_hparams\<lparr>training_mode := ''linear''\<rparr>)) of
         Inl _ \<Rightarrow> []
       | Inr m \<Rightarrow> map (\<lambda>np. (fst np, requires_grad (snd np))) (named_parameters (net m)))
       = [(''vit.embeddings.cls_token'', False),
          (''vit.encoder.layer.0.attention.attention.query.weight'', False),
          (''classifier.weight'', True),
          (''classifier.bias'', True)]"
proof -
  let ?hp = "default_hparams\<lparr>training_mode := ''linear''\<rparr>"
  have t: "training_mode ?hp = ''linear''" by simp
  obtain es m where i: "init example_env ?hp = (es, Inr m)"
    and m: "net m = example_net\<lparr>named_parameters := map freeze (named_parameters example_net)\<rparr>"
    using init_example_linear by simp
  have v: "map (\<lambda>np. (fst np, requires_grad (snd np))) (named_parameters (net m))
            = [(''vit.embeddings.cls_token'', False),
               (''vit.encoder.layer.0.attention.attention.query.weight'', False),
               (''classifier.weight'', True),
               (''classifier.bias'', True)]"
    by (simp add: m example_net_def freeze_def str_in_def sublist_code)
  from linear_probing_freezes_backbone [OF t i] have "True" by simp
  with t i v show ?thesis by simp
qed

section \<open>Quantized weights\<close>



lemma prepare_mode_events:
  "ev \<in> set (fst (prepare_mode e hp n)) \<Longrightarrow> \<exists>c. ev = Get_peft_model c"
  by (auto simp: prepare_mode_def split: if_splits)

lemma finish_init_events:
  "ev \<in> set (fst (finish_init e hp n)) \<Longrightarrow>
   ev = Wandb_init (model_name hp @ ''_'' @ training_mode hp)
          (lr hp, batch_size hp, optimizer hp, scheduler hp, gact_level hp, use_4bit hp)
   \<or> (\<exists>l. ev = Gact_set_optimization_level l) \<or> ev = Controller_install_hook"
  by (auto simp: finish_init_def gact_setup_def fst_res_bind
        split: option.splits if_splits sum.splits)

















section \<open>The checkpoint\<close>

lemma map_of_dict_setitem: "map_of (dict_setitem d k v) = (map_of d)(k \<mapsto> v)"
  by (induction d k v rule: dict_setitem.induct) auto

lemma keys_dict_setitem: "fst ` set (dict_setitem d k v) = insert k (fst ` set d)"
  by (induction d k v rule: dict_setitem.induct) auto

lemma distinct_dict_setitem:
  "distinct (map fst d) \<Longrightarrow> distinct (map fst (dict_setitem d k v))"
  by (induction d k v rule: dict_setitem.induct) (auto simp: keys_dict_setitem)

lemma map_of_strip_prefix_loop:
  "map_of (strip_prefix_loop acc ckpt) = map_of (rev (kept_entries ckpt) @ acc)"
proof (induction acc ckpt rule: strip_prefix_loop.induct)
  case (1 acc)
  show ?case by (simp add: kept_entries_def)
next
  case (2 acc k v ckpt)
  show ?case
  proof (cases "startswith k ''net''")
    case True
    with 2 show ?thesis
      by (simp add: kept_entries_def map_of_dict_setitem)
  next
    case False
    with 2 show ?thesis by (simp add: kept_entries_def)
  qed
qed

lemma distinct_strip_prefix_loop:
  "distinct (map fst acc) \<Longrightarrow> distinct (map fst (strip_prefix_loop acc ckpt))"
  by (induction acc ckpt rule: strip_prefix_loop.induct) (auto simp: distinct_dict_setitem)

lemma keys_strip_prefix_loop:
  "fst ` set (strip_prefix_loop acc ckpt) = fst ` set acc \<union> fst ` set (kept_entries ckpt)"
  by (induction acc ckpt rule: strip_prefix_loop.induct)
     (auto simp: keys_dict_setitem kept_entries_def)

lemma prefix_net_short:
  "length a < 4 \<Longrightarrow> a \<noteq> [] \<Longrightarrow> \<not> prefix ''net.'' (a @ ''net.'' @ b)"
proof -
  assume l: "length a < 4" and n: "a \<noteq> []"
  then consider c where "a = [c]" | c d where "a = [c, d]" | c d f where "a = [c, d, f]"
    by (cases a; cases "tl a"; cases "tl (tl a)"; cases "tl (tl (tl a))") auto
  then show ?thesis by cases auto
qed

lemma prefix_net_long:
  assumes "4 \<le> length a"
  shows "prefix ''net.'' (a @ s) = prefix ''net.'' a"
proof
  assume "prefix ''net.'' (a @ s)"
  then consider "prefix ''net.'' a" | us where "''net.'' = a @ us"
    by (auto simp: prefix_append)
  then show "prefix ''net.'' a"
  proof cases
    case 1 then show ?thesis .
  next
    case 2
    then have "length ''net.'' = length a + length us" by (metis length_append)
    then have "length a + length us = 4" by simp
    with assms have "length us = 0" by linarith
    then have "us = []" by simp
    with 2 show ?thesis by simp
  qed
next
  assume "prefix ''net.'' a"
  then show "prefix ''net.'' (a @ s)" by (rule prefix_prefix)
qed

lemma str_remove_net_step:
  "s \<noteq> [] \<Longrightarrow>
   str_remove ''net.'' s =
     (if prefix ''net.'' s then str_remove ''net.'' (drop 4 s)
      else hd s # str_remove ''net.'' (tl s))"
  by (cases s) (simp_all add: eval_nat_numeral)

lemma str_remove_net_split:
  "str_remove ''net.'' (a @ ''net.'' @ b) = str_remove ''net.'' a @ str_remove ''net.'' b"
proof (induction a rule: length_induct)
  case (1 a)
  show ?case
  proof (cases "a = []")
    case True
    then show ?thesis by simp
  next
    case False
    then have ne: "a @ ''net.'' @ b \<noteq> []" by simp
    show ?thesis
    proof (cases "prefix ''net.'' a")
      case True
      then have len: "4 \<le> length a" by (auto simp: prefix_def)
      then have p: "prefix ''net.'' (a @ ''net.'' @ b)" using True by (simp add: prefix_net_long)
      from len False have "length (drop 4 a) < length a" by simp
      with 1 have ih: "str_remove ''net.'' (drop 4 a @ ''net.'' @ b)
          = str_remove ''net.'' (drop 4 a) @ str_remove ''net.'' b" by blast
      have "str_remove ''net.'' (a @ ''net.'' @ b) = str_remove ''net.'' (drop 4 (a @ ''net.'' @ b))"
        using p by (simp only: str_remove_net_step [OF ne] if_True)
      also have "drop 4 (a @ ''net.'' @ b) = drop 4 a @ ''net.'' @ b" using len by simp
      also note ih
      also have "str_remove ''net.'' (drop 4 a) = str_remove ''net.'' a"
        using True by (simp only: str_remove_net_step [OF False] if_True)
      finally show ?thesis .
    next
      case np: False
      have q: "\<not> prefix ''net.'' (a @ ''net.'' @ b)"
      proof (cases "4 \<le> length a")
        case True
        with np show ?thesis by (simp add: prefix_net_long)
      next
        case False
        then have "length a < 4" by simp
        then show ?thesis using \<open>a \<noteq> []\<close> by (rule prefix_net_short)
      qed
      from False have "length (tl a) < length a" by (cases a) simp_all
      with 1 have ih: "str_remove ''net.'' (tl a @ ''net.'' @ b)
          = str_remove ''net.'' (tl a) @ str_remove ''net.'' b" by blast
      have "str_remove ''net.'' (a @ ''net.'' @ b)
          = hd (a @ ''net.'' @ b) # str_remove ''net.'' (tl (a @ ''net.'' @ b))"
        using q by (simp only: str_remove_net_step [OF ne] if_False)
      also have "hd (a @ ''net.'' @ b) = hd a" using False by simp
      also have "tl (a @ ''net.'' @ b) = tl a @ ''net.'' @ b" using False by simp
      also note ih
      finally have "str_remove ''net.'' (a @ ''net.'' @ b)
          = (hd a # str_remove ''net.'' (tl a)) @ str_remove ''net.'' b" by simp
      also have "hd a # str_remove ''net.'' (tl a) = str_remove ''net.'' a"
        using np by (simp only: str_remove_net_step [OF False] if_False)
      finally show ?thesis .
    qed
  qed
qed

lemma strip_prefix_loop_keys:
  "fst ` set (strip_prefix_loop [] ckpt)
     = str_remove ''net.'' ` {k \<in> fst ` set ckpt. startswith k ''net''}"
  by (auto simp: keys_strip_prefix_loop kept_entries_def intro!: rev_image_eqI)

lemma build_network_checkpoint:
  assumes "weights hp = Some w" and "w \<noteq> []"
    and "(model_name hp, p) \<in> set MODEL_DICT"
    and "init_network e hp p = (es1, Inr n1)"
    and "lib_torch_load e w = Inr ckpt"
  shows "build_network e hp
     = (es1 @ [Torch_load w, Load_state_dict (strip_prefix_loop [] ckpt) True],
        lib_value (lib_load_state_dict e n1 (strip_prefix_loop [] ckpt) True))"
  using assms(4,5)
  by (simp add: build_network_key [OF assms(3)] load_checkpoint_some [OF assms(1,2)] lib_call_def)

lemma init_after_build:
  "\<exists>rest. fst (init e hp) = fst (build_network e hp) @ rest
     \<and> (\<forall>ev \<in> set rest. (\<exists>c. ev = Get_peft_model c) \<or> (\<exists>a b. ev = Wandb_init a b)
          \<or> (\<exists>l. ev = Gact_set_optimization_level l) \<or> ev = Controller_install_hook)"
proof -
  let ?rest = "(case snd (build_network e hp) of
                  Inl err \<Rightarrow> []
                | Inr n \<Rightarrow> fst (prepare_mode e hp n)
                    @ (case snd (prepare_mode e hp n) of
                         Inl err \<Rightarrow> [] | Inr n' \<Rightarrow> fst (finish_init e hp n')))"
  have "fst (init e hp) = fst (build_network e hp) @ ?rest"
    by (simp add: init_def fst_res_bind split: sum.splits)
  moreover have "\<forall>ev \<in> set ?rest. (\<exists>c. ev = Get_peft_model c) \<or> (\<exists>a b. ev = Wandb_init a b)
          \<or> (\<exists>l. ev = Gact_set_optimization_level l) \<or> ev = Controller_install_hook"
    by (auto split: sum.splits dest: prepare_mode_events finish_init_events)
  ultimately show ?thesis by blast
qed

text \<open>
  Claim C9. When a checkpoint path is given, the model name is a key of \<open>MODEL_DICT\<close>, the
  network has been made and the checkpoint file has been read, the constructor loads one
  state dict into that network, with \<^verbatim>\<open>strict=True\<close>, right after reading the file. That
  state dict is a dictionary whose entries are those of the checkpoint whose key starts
  with \<^verbatim>\<open>net\<close>, under the key with \<^verbatim>\<open>net.\<close> replaced by nothing (a later entry wins
  where two keys become equal); the other entries are dropped. The replacement deletes
  \<^verbatim>\<open>net.\<close> wherever it occurs in the key, not only in front. What the strict loading
  returns is the network that the rest of the constructor works on, so in the mode
  \<^verbatim>\<open>full\<close> it is the network of the object; and when the strict loading raises, the
  constructor raises that error.
\<close>

theorem checkpoint_keys_stripped:
  assumes "weights hp = Some w" and "w \<noteq> []"
    and "(model_name hp, p) \<in> set MODEL_DICT"
    and "init_network e hp p = (es1, Inr n1)"
    and "lib_torch_load e w = Inr ckpt"
  shows "\<exists>sd. sd = strip_prefix_loop [] ckpt
     \<and> distinct (map fst sd)
     \<and> map_of sd = map_of (rev (kept_entries ckpt))
     \<and> fst ` set sd = str_remove ''net.'' ` {k \<in> fst ` set ckpt. startswith k ''net''}
     \<and> build_network e hp
         = (es1 @ [Torch_load w, Load_state_dict sd True],
            lib_value (lib_load_state_dict e n1 sd True))
     \<and> (\<exists>rest. fst (init e hp) = es1 @ [Torch_load w, Load_state_dict sd True] @ rest
           \<and> (\<forall>ev \<in> set rest. \<forall>sd' b. ev \<noteq> Load_state_dict sd' b))
     \<and> (\<forall>es m. training_mode hp = ''full'' \<and> init e hp = (es, Inr m) \<longrightarrow>
           lib_load_state_dict e n1 sd True = Inr (net m))
     \<and> (\<forall>err. lib_load_state_dict e n1 sd True = Inl err \<longrightarrow>
           init e hp = (es1 @ [Torch_load w, Load_state_dict sd True], Inl (In_library err)))
     \<and> (\<forall>a b. str_remove ''net.'' (a @ ''net.'' @ b)
                = str_remove ''net.'' a @ str_remove ''net.'' b)"
proof -
  let ?sd = "strip_prefix_loop [] ckpt"
  have 2: "distinct (map fst ?sd)" by (rule distinct_strip_prefix_loop) simp
  have 3: "map_of ?sd = map_of (rev (kept_entries ckpt))"
    by (simp add: map_of_strip_prefix_loop)
  have 4: "fst ` set ?sd = str_remove ''net.'' ` {k \<in> fst ` set ckpt. startswith k ''net''}"
    by (rule strip_prefix_loop_keys)
  have 5: "build_network e hp
         = (es1 @ [Torch_load w, Load_state_dict ?sd True],
            lib_value (lib_load_state_dict e n1 ?sd True))"
    using assms by (rule build_network_checkpoint)
  from init_after_build [of e hp] obtain rest where
    t: "fst (init e hp) = fst (build_network e hp) @ rest"
    and r: "\<forall>ev \<in> set rest. (\<exists>c. ev = Get_peft_model c) \<or> (\<exists>a b. ev = Wandb_init a b)
          \<or> (\<exists>l. ev = Gact_set_optimization_level l) \<or> ev = Controller_install_hook"
    by blast
  from r have "\<forall>ev \<in> set rest. \<forall>sd' b. ev \<noteq> Load_state_dict sd' b" by fastforce
  with t 5 have 6: "\<exists>rest. fst (init e hp) = es1 @ [Torch_load w, Load_state_dict ?sd True] @ rest
           \<and> (\<forall>ev \<in> set rest. \<forall>sd' b. ev \<noteq> Load_state_dict sd' b)"
    by auto
  have 7: "\<forall>es m. training_mode hp = ''full'' \<and> init e hp = (es, Inr m) \<longrightarrow>
           lib_load_state_dict e n1 ?sd True = Inr (net m)"
  proof (intro allI impI)
    fix es m assume a: "training_mode hp = ''full'' \<and> init e hp = (es, Inr m)"
    then obtain es0 where "build_network e hp = (es0, Inr (net m))"
      using init_full_net by blast
    with 5 have "lib_value (lib_load_state_dict e n1 ?sd True) = Inr (net m)" by simp
    then show "lib_load_state_dict e n1 ?sd True = Inr (net m)" by (simp only: lib_value_eq_Inr)
  qed
  have 8: "\<forall>err. lib_load_state_dict e n1 ?sd True = Inl err \<longrightarrow>
           init e hp = (es1 @ [Torch_load w, Load_state_dict ?sd True], Inl (In_library err))"
    using 5 by (auto simp: init_def)
  from 2 3 4 5 6 7 8 str_remove_net_split show ?thesis by blast
qed

theorem checkpoint_keys_stripped_witness:
  "weights (default_hparams\<lparr>weights := Some ''probe.ckpt''\<rparr>) = Some ''probe.ckpt''
   \<and> ''probe.ckpt'' \<noteq> []
   \<and> (model_name (default_hparams\<lparr>weights := Some ''probe.ckpt''\<rparr>),
        ''google/vit-base-patch16-224-in21k'') \<in> set MODEL_DICT
   \<and> init_network example_env (default_hparams\<lparr>weights := Some ''probe.ckpt''\<rparr>)
         ''google/vit-base-patch16-224-in21k''
       = ([From_pretrained ''google/vit-base-patch16-224-in21k'' 10 224 False], Inr example_net)
   \<and> lib_torch_load example_env ''probe.ckpt''
       = Inr [(''net.vit.embeddings.cls_token'', [6]),
              (''net.vit.encoder.layer.0.attention.attention.query.weight'', [7, 8]),
              (''net.classifier.weight'', [9, 10]),
              (''net.classifier.bias'', [11]),
              (''loss_fn.weight'', [1])]
   \<and> build_network example_env (default_hparams\<lparr>weights := Some ''probe.ckpt''\<rparr>)
       = ([From_pretrained ''google/vit-base-patch16-224-in21k'' 10 224 False,
           Torch_load ''probe.ckpt'',
           Load_state_dict
             [(''vit.embeddings.cls_token'', [6]),
              (''vit.encoder.layer.0.attention.attention.query.weight'', [7, 8]),
              (''classifier.weight'', [9, 10]),
              (''classifier.bias'', [11])] True],
          Inr \<lparr> named_parameters =
            [(''vit.embeddings.cls_token'', \<lparr> requires_grad = True, data = [6] \<rparr>),
             (''vit.encoder.layer.0.attention.attention.query.weight'',
                \<lparr> requires_grad = True, data = [7, 8] \<rparr>),
             (''classifier.weight'', \<lparr> requires_grad = True, data = [9, 10] \<rparr>),
             (''classifier.bias'', \<lparr> requires_grad = True, data = [11] \<rparr>)] \<rparr>)
   \<and> lib_torch_load example_env ''subnet.ckpt''
       = Inr [(''net.classifier.bias'', [7]), (''net.vit.subnet.weight'', [8]),
              (''loss_fn.weight'', [1])]
   \<and> init example_env (default_hparams\<lparr>weights := Some ''subnet.ckpt''\<rparr>)
       = ([From_pretrained ''google/vit-base-patch16-224-in21k'' 10 224 False,
           Torch_load ''subnet.ckpt'',
           Load_state_dict [(''classifier.bias'', [7]), (''vit.subweight'', [8])] True],
          Inl (In_library (RuntimeError ''Error(s) in loading state_dict'')))"
proof -
  let ?hp = "default_hparams\<lparr>weights := Some ''probe.ckpt''\<rparr>"
  let ?hs = "default_hparams\<lparr>weights := Some ''subnet.ckpt''\<rparr>"
  let ?p = "''google/vit-base-patch16-224-in21k''"
  let ?probe = "[(''net.vit.embeddings.cls_token'', [6]),
              (''net.vit.encoder.layer.0.attention.attention.query.weight'', [7, 8]),
              (''net.classifier.weight'', [9, 10]),
              (''net.classifier.bias'', [11]),
              (''loss_fn.weight'', [1::real])]"
  let ?subnet = "[(''net.classifier.bias'', [7]), (''net.vit.subnet.weight'', [8]),
              (''loss_fn.weight'', [1::real])]"
  have a: "weights ?hp = Some ''probe.ckpt''" "weights ?hs = Some ''subnet.ckpt''" by simp_all
  have b: "''probe.ckpt'' \<noteq> []" "''subnet.ckpt'' \<noteq> []" by simp_all
  have k: "(model_name ?hp, ?p) \<in> set MODEL_DICT" "(model_name ?hs, ?p) \<in> set MODEL_DICT"
    by (simp_all add: default_hparams_def MODEL_DICT_def)
  have i: "init_network example_env ?hp ?p = ([From_pretrained ?p 10 224 False], Inr example_net)"
    "init_network example_env ?hs ?p = ([From_pretrained ?p 10 224 False], Inr example_net)"
    by (simp_all add: init_network_def default_hparams_def lib_call_def example_env_def)
  have c: "lib_torch_load example_env ''probe.ckpt'' = Inr ?probe"
    "lib_torch_load example_env ''subnet.ckpt'' = Inr ?subnet"
    by (simp_all add: example_env_def example_checkpoint_def)
  have sp: "strip_prefix_loop [] ?probe
      = [(''vit.embeddings.cls_token'', [6]),
         (''vit.encoder.layer.0.attention.attention.query.weight'', [7, 8]),
         (''classifier.weight'', [9, 10]),
         (''classifier.bias'', [11])]"
    by (simp add: startswith_def)
  have ss: "strip_prefix_loop [] ?subnet = [(''classifier.bias'', [7]), (''vit.subweight'', [8])]"
    by (simp add: startswith_def)
  have lp: "lib_load_state_dict example_env example_net
        [(''vit.embeddings.cls_token'', [6]),
         (''vit.encoder.layer.0.attention.attention.query.weight'', [7, 8]),
         (''classifier.weight'', [9, 10]),
         (''classifier.bias'', [11])] True
      = Inr \<lparr> named_parameters =
            [(''vit.embeddings.cls_token'', \<lparr> requires_grad = True, data = [6] \<rparr>),
             (''vit.encoder.layer.0.attention.attention.query.weight'',
                \<lparr> requires_grad = True, data = [7, 8] \<rparr>),
             (''classifier.weight'', \<lparr> requires_grad = True, data = [9, 10] \<rparr>),
             (''classifier.bias'', \<lparr> requires_grad = True, data = [11] \<rparr>)] \<rparr>"
    by (simp add: example_env_def example_load_state_dict_def example_net_def)
  have ls: "lib_load_state_dict example_env example_net
        [(''classifier.bias'', [7]), (''vit.subweight'', [8])] True
      = Inl (RuntimeError ''Error(s) in loading state_dict'')"
    by (simp add: example_env_def example_load_state_dict_def example_net_def)
  from checkpoint_keys_stripped [OF a(1) b(1) k(1) i(1) c(1)]
  have 1: "build_network example_env ?hp
       = ([From_pretrained ?p 10 224 False] @ [Torch_load ''probe.ckpt'',
            Load_state_dict (strip_prefix_loop [] ?probe) True],
          lib_value (lib_load_state_dict example_env example_net (strip_prefix_loop [] ?probe) True))"
    by blast
  from checkpoint_keys_stripped [OF a(2) b(2) k(2) i(2) c(2)]
  have "\<forall>err. lib_load_state_dict example_env example_net (strip_prefix_loop [] ?subnet) True
            = Inl err \<longrightarrow>
           init example_env ?hs
             = ([From_pretrained ?p 10 224 False] @ [Torch_load ''subnet.ckpt'',
                  Load_state_dict (strip_prefix_loop [] ?subnet) True], Inl (In_library err))"
    by blast
  then have 2: "init example_env ?hs
       = ([From_pretrained ?p 10 224 False,
           Torch_load ''subnet.ckpt'',
           Load_state_dict [(''classifier.bias'', [7]), (''vit.subweight'', [8])] True],
          Inl (In_library (RuntimeError ''Error(s) in loading state_dict'')))"
    by (simp only: ss ls) simp
  from 1 have 3: "build_network example_env ?hp
       = ([From_pretrained ?p 10 224 False,
           Torch_load ''probe.ckpt'',
           Load_state_dict
             [(''vit.embeddings.cls_token'', [6]),
              (''vit.encoder.layer.0.attention.attention.query.weight'', [7, 8]),
              (''classifier.weight'', [9, 10]),
              (''classifier.bias'', [11])] True],
          Inr \<lparr> named_parameters =
            [(''vit.embeddings.cls_token'', \<lparr> requires_grad = True, data = [6] \<rparr>),
             (''vit.encoder.layer.0.attention.attention.query.weight'',
                \<lparr> requires_grad = True, data = [7, 8] \<rparr>),
             (''classifier.weight'', \<lparr> requires_grad = True, data = [9, 10] \<rparr>),
             (''classifier.bias'', \<lparr> requires_grad = True, data = [11] \<rparr>)] \<rparr>)"
    by (simp only: sp lp) simp
  from a b k i c 2 3 show ?thesis by simp
qed

section \<open>Optimizers and schedulers\<close>

lemma make_optimizer_cases:
  "make_optimizer e self =
     (if optimizer self \<in> {''adam'', ''adamw'', ''sgd'', ''adamw4bit''}
      then construct (lib_new_optimizer e)
             (let ps = named_parameters (net self) in
              if optimizer self = ''adam''
                then Adam ps (lr self) (betas self) (weight_decay self)
              else if optimizer self = ''adamw''
                then AdamW ps (lr self) (betas self) (weight_decay self)
              else if optimizer self = ''sgd''
                then SGD ps (lr self) (momentum self) (weight_decay self)
              else Lpmm_AdamW ps (lr self) (betas self) (weight_decay self))
      else Inl (ValueError (optimizer_error_message (optimizer self))))"
  by (simp add: make_optimizer_def Let_def)

lemma make_optimizer_Inr:
  "make_optimizer e self = Inr opt \<Longrightarrow>
   optimizer self \<in> {''adam'', ''adamw'', ''sgd'', ''adamw4bit''}"
  by (simp add: make_optimizer_cases split: if_splits)

lemma make_optimizer_own_error:
  "make_optimizer e self = Inl (ValueError msg) \<longleftrightarrow>
     optimizer self \<notin> {''adam'', ''adamw'', ''sgd'', ''adamw4bit''}
     \<and> msg = optimizer_error_message (optimizer self)"
  by (auto simp: make_optimizer_cases construct_eq_Inl)

lemma make_optimizer_library_error:
  "optimizer self \<in> {''adam'', ''adamw'', ''sgd'', ''adamw4bit''} \<Longrightarrow>
   make_optimizer e self = Inl err \<Longrightarrow> \<exists>err'. err = In_library err'"
  by (auto simp: make_optimizer_cases construct_eq_Inl)

lemma make_scheduler_none:
  "scheduler self = ''none'' \<Longrightarrow>
   make_scheduler e self opt = construct (lib_new_scheduler e) (LambdaLR opt (\<lambda>_. 1))"
  by (simp add: make_scheduler_def)

lemma make_scheduler_cosine:
  "scheduler self = ''cosine'' \<Longrightarrow>
   make_scheduler e self opt =
     (case lib_estimated_stepping_batches e of
        Inl err \<Rightarrow> Inl (In_library err)
      | Inr Infinite_steps \<Rightarrow> Inl (OverflowError ''cannot convert float infinity to integer'')
      | Inr (Steps k) \<Rightarrow>
          construct (lib_new_scheduler e) (Cosine_schedule_with_warmup opt k (warmup_steps self)))"
  by (simp add: make_scheduler_def py_int_def split: sum.splits stepping_batches.splits)

lemma make_scheduler_own_error:
  "make_scheduler e self opt = Inl (ValueError msg) \<longleftrightarrow>
     scheduler self \<notin> {''cosine'', ''none''} \<and> msg = scheduler_error_message (scheduler self)"
  by (auto simp: make_scheduler_def py_int_def construct_eq_Inl lib_value_eq_Inl
        split: sum.splits stepping_batches.splits)

lemma configure_optimizers_own_error:
  "(\<exists>msg. configure_optimizers e self = Inl (ValueError msg)) \<longleftrightarrow>
     (optimizer self \<notin> {''adam'', ''adamw'', ''sgd'', ''adamw4bit''}
      \<or> ((\<exists>opt. make_optimizer e self = Inr opt) \<and> scheduler self \<notin> {''cosine'', ''none''}))"
proof (cases "make_optimizer e self")
  case (Inl err)
  then have c: "configure_optimizers e self = Inl err" by (simp add: configure_optimizers_def)
  have "(\<exists>msg. err = ValueError msg)
      \<longleftrightarrow> optimizer self \<notin> {''adam'', ''adamw'', ''sgd'', ''adamw4bit''}"
  proof
    assume "\<exists>msg. err = ValueError msg"
    then obtain msg where "make_optimizer e self = Inl (ValueError msg)" using Inl by blast
    then show "optimizer self \<notin> {''adam'', ''adamw'', ''sgd'', ''adamw4bit''}"
      using make_optimizer_own_error [of e self msg] by blast
  next
    assume "optimizer self \<notin> {''adam'', ''adamw'', ''sgd'', ''adamw4bit''}"
    then have "make_optimizer e self = Inl (ValueError (optimizer_error_message (optimizer self)))"
      using make_optimizer_own_error [of e self "optimizer_error_message (optimizer self)"] by blast
    with Inl show "\<exists>msg. err = ValueError msg" by auto
  qed
  with c Inl show ?thesis by simp
next
  case (Inr opt)
  then have o: "optimizer self \<in> {''adam'', ''adamw'', ''sgd'', ''adamw4bit''}"
    by (rule make_optimizer_Inr)
  have c: "configure_optimizers e self = Inl (ValueError msg)
      \<longleftrightarrow> make_scheduler e self opt = Inl (ValueError msg)" for msg
    using Inr by (simp add: configure_optimizers_def split: sum.splits)
  have "(\<exists>msg. make_scheduler e self opt = Inl (ValueError msg))
      \<longleftrightarrow> scheduler self \<notin> {''cosine'', ''none''}"
    using make_scheduler_own_error [of e self opt] by blast
  with c o Inr show ?thesis by simp
qed

lemma optimizer_message_tail:
  "drop (length name) (optimizer_error_message name)
     = '' is not an available optimizer. Should be one of ''
       @ py_repr_list [''adam'', ''adamw'', ''sgd'']"
  by (simp add: optimizer_error_message_def)

lemma optimizer_message_lists:
  assumes "k \<in> set [''adam'', ''adamw'', ''sgd'']"
  shows "str_in k (drop (length name) (optimizer_error_message name))"
proof -
  from assms have "str_in k (py_repr_list [''adam'', ''adamw'', ''sgd''])"
    by (rule str_in_repr_list)
  then have "str_in k ('' is not an available optimizer. Should be one of ''
       @ py_repr_list [''adam'', ''adamw'', ''sgd''] @ [])"
    by (rule str_in_middle)
  then show ?thesis by (simp add: optimizer_message_tail)
qed

lemma optimizer_message_no_4bit:
  "\<not> str_in ''adamw4bit'' (drop (length name) (optimizer_error_message name))"
  unfolding optimizer_message_tail
  by (simp add: str_in_def py_repr_list_def py_repr_str_def squote_def sublist_code)

text \<open>
  Claim C6, as amended. \<^verbatim>\<open>configure_optimizers\<close> raises a ValueError of its own exactly
  when the optimizer name is none of \<^verbatim>\<open>adam\<close>, \<^verbatim>\<open>adamw\<close>, \<^verbatim>\<open>sgd\<close>, \<^verbatim>\<open>adamw4bit\<close>, or
  the optimizer has been constructed and the scheduler name is none of \<^verbatim>\<open>cosine\<close>,
  \<^verbatim>\<open>none\<close>; the message is the one of the source for that name. What follows the name
  in the message of the optimizer error lists \<^verbatim>\<open>adam\<close>, \<^verbatim>\<open>adamw\<close> and \<^verbatim>\<open>sgd\<close> and
  does not have \<^verbatim>\<open>adamw4bit\<close>, which is accepted all the same. With a known optimizer
  name the optimizer is the one selected by the name, as far as its constructor accepts
  the arguments. With the scheduler \<^verbatim>\<open>none\<close> the result is the dictionary of that
  optimizer and a LambdaLR over it with the constant factor 1 and the interval \<^verbatim>\<open>step\<close>,
  unless the constructor of the scheduler raises. With the scheduler \<^verbatim>\<open>cosine\<close> the
  result is such a dictionary with the cosine schedule over the estimated number of steps,
  unless the estimate raises, the estimate is infinite, where \<^verbatim>\<open>int\<close> raises an
  OverflowError, or the constructor of the scheduler raises.
\<close>

theorem configure_optimizers_result:
  "((\<exists>msg. configure_optimizers e self = Inl (ValueError msg)) \<longleftrightarrow>
      (optimizer self \<notin> {''adam'', ''adamw'', ''sgd'', ''adamw4bit''}
       \<or> ((\<exists>opt. make_optimizer e self = Inr opt) \<and> scheduler self \<notin> {''cosine'', ''none''})))
   \<and> (optimizer self \<notin> {''adam'', ''adamw'', ''sgd'', ''adamw4bit''} \<longrightarrow>
        configure_optimizers e self = Inl (ValueError (optimizer_error_message (optimizer self))))
   \<and> (\<forall>opt. make_optimizer e self = Inr opt \<and> scheduler self \<notin> {''cosine'', ''none''} \<longrightarrow>
        configure_optimizers e self = Inl (ValueError (scheduler_error_message (scheduler self))))
   \<and> str_in ''adam'' (drop (length (optimizer self)) (optimizer_error_message (optimizer self)))
   \<and> str_in ''adamw'' (drop (length (optimizer self)) (optimizer_error_message (optimizer self)))
   \<and> str_in ''sgd'' (drop (length (optimizer self)) (optimizer_error_message (optimizer self)))
   \<and> \<not> str_in ''adamw4bit''
          (drop (length (optimizer self)) (optimizer_error_message (optimizer self)))
   \<and> (optimizer self \<in> {''adam'', ''adamw'', ''sgd'', ''adamw4bit''} \<longrightarrow>
        make_optimizer e self
          = construct (lib_new_optimizer e)
              (let ps = named_parameters (net self) in
               if optimizer self = ''adam''
                 then Adam ps (lr self) (betas self) (weight_decay self)
               else if optimizer self = ''adamw''
                 then AdamW ps (lr self) (betas self) (weight_decay self)
               else if optimizer self = ''sgd''
                 then SGD ps (lr self) (momentum self) (weight_decay self)
               else Lpmm_AdamW ps (lr self) (betas self) (weight_decay self))
        \<and> (\<forall>err. make_optimizer e self = Inl err \<longrightarrow>
              configure_optimizers e self = Inl err \<and> (\<exists>err'. err = In_library err')))
   \<and> (\<forall>opt. make_optimizer e self = Inr opt \<and> scheduler self = ''none'' \<longrightarrow>
        configure_optimizers e self =
          (case lib_new_scheduler e (LambdaLR opt (\<lambda>_. 1)) of
             Some err \<Rightarrow> Inl (In_library err)
           | None \<Rightarrow>
               Inr \<lparr> dict_optimizer = opt,
                     dict_lr_scheduler =
                       \<lparr> sched_scheduler = LambdaLR opt (\<lambda>_. 1), sched_interval = ''step'' \<rparr> \<rparr>))
   \<and> (\<forall>opt. make_optimizer e self = Inr opt \<and> scheduler self = ''cosine'' \<longrightarrow>
        configure_optimizers e self =
          (case lib_estimated_stepping_batches e of
             Inl err \<Rightarrow> Inl (In_library err)
           | Inr Infinite_steps \<Rightarrow>
               Inl (OverflowError ''cannot convert float infinity to integer'')
           | Inr (Steps k) \<Rightarrow>
               (case lib_new_scheduler e
                       (Cosine_schedule_with_warmup opt k (warmup_steps self)) of
                  Some err \<Rightarrow> Inl (In_library err)
                | None \<Rightarrow>
                    Inr \<lparr> dict_optimizer = opt,
                          dict_lr_scheduler =
                            \<lparr> sched_scheduler =
                                Cosine_schedule_with_warmup opt k (warmup_steps self),
                              sched_interval = ''step'' \<rparr> \<rparr>)))"
proof (intro conjI impI allI)
  show "(\<exists>msg. configure_optimizers e self = Inl (ValueError msg)) \<longleftrightarrow>
      (optimizer self \<notin> {''adam'', ''adamw'', ''sgd'', ''adamw4bit''}
       \<or> ((\<exists>opt. make_optimizer e self = Inr opt) \<and> scheduler self \<notin> {''cosine'', ''none''}))"
    by (rule configure_optimizers_own_error)
next
  assume "optimizer self \<notin> {''adam'', ''adamw'', ''sgd'', ''adamw4bit''}"
  then show "configure_optimizers e self
      = Inl (ValueError (optimizer_error_message (optimizer self)))"
    by (simp add: configure_optimizers_def make_optimizer_cases)
next
  fix opt
  assume "make_optimizer e self = Inr opt \<and> scheduler self \<notin> {''cosine'', ''none''}"
  then show "configure_optimizers e self
      = Inl (ValueError (scheduler_error_message (scheduler self)))"
    by (simp add: configure_optimizers_def make_scheduler_def)
next
  show "str_in ''adam'' (drop (length (optimizer self)) (optimizer_error_message (optimizer self)))"
    "str_in ''adamw'' (drop (length (optimizer self)) (optimizer_error_message (optimizer self)))"
    "str_in ''sgd'' (drop (length (optimizer self)) (optimizer_error_message (optimizer self)))"
    "\<not> str_in ''adamw4bit''
          (drop (length (optimizer self)) (optimizer_error_message (optimizer self)))"
    using optimizer_message_lists [of _ "optimizer self"] optimizer_message_no_4bit [of "optimizer self"]
    by simp_all
next
  assume a: "optimizer self \<in> {''adam'', ''adamw'', ''sgd'', ''adamw4bit''}"
  then show "make_optimizer e self
          = construct (lib_new_optimizer e)
              (let ps = named_parameters (net self) in
               if optimizer self = ''adam''
                 then Adam ps (lr self) (betas self) (weight_decay self)
               else if optimizer self = ''adamw''
                 then AdamW ps (lr self) (betas self) (weight_decay self)
               else if optimizer self = ''sgd''
                 then SGD ps (lr self) (momentum self) (weight_decay self)
               else Lpmm_AdamW ps (lr self) (betas self) (weight_decay self))"
    by (simp only: make_optimizer_cases if_True)
  fix err assume m: "make_optimizer e self = Inl err"
  then show "configure_optimizers e self = Inl err" by (simp add: configure_optimizers_def)
  from a m show "\<exists>err'. err = In_library err'" by (rule make_optimizer_library_error)
next
  fix opt
  assume "make_optimizer e self = Inr opt \<and> scheduler self = ''none''"
  then show "configure_optimizers e self =
          (case lib_new_scheduler e (LambdaLR opt (\<lambda>_. 1)) of
             Some err \<Rightarrow> Inl (In_library err)
           | None \<Rightarrow>
               Inr \<lparr> dict_optimizer = opt,
                     dict_lr_scheduler =
                       \<lparr> sched_scheduler = LambdaLR opt (\<lambda>_. 1), sched_interval = ''step'' \<rparr> \<rparr>)"
    by (simp add: configure_optimizers_def make_scheduler_none construct_def split: option.splits)
next
  fix opt
  assume "make_optimizer e self = Inr opt \<and> scheduler self = ''cosine''"
  then show "configure_optimizers e self =
          (case lib_estimated_stepping_batches e of
             Inl err \<Rightarrow> Inl (In_library err)
           | Inr Infinite_steps \<Rightarrow>
               Inl (OverflowError ''cannot convert float infinity to integer'')
           | Inr (Steps k) \<Rightarrow>
               (case lib_new_scheduler e
                       (Cosine_schedule_with_warmup opt k (warmup_steps self)) of
                  Some err \<Rightarrow> Inl (In_library err)
                | None \<Rightarrow>
                    Inr \<lparr> dict_optimizer = opt,
                          dict_lr_scheduler =
                            \<lparr> sched_scheduler =
                                Cosine_schedule_with_warmup opt k (warmup_steps self),
                              sched_interval = ''step'' \<rparr> \<rparr>))"
    by (simp add: configure_optimizers_def make_scheduler_cosine construct_def
          split: option.splits sum.splits stepping_batches.splits)
qed

lemma example_model_fields:
  "n_classes example_model = 2" "net example_model = example_net"
  "open_gact example_model = False" "train_step example_model = 0" "val_step example_model = 0"
  "train_metrics example_model = [(''acc'', Accuracy 2 1), (''acc_top5'', Accuracy 2 2)]"
  "val_metrics example_model = [(''acc'', Accuracy 2 1), (''acc_top5'', Accuracy 2 2)]"
  "test_metrics example_model
     = [(''acc'', Accuracy 2 1), (''acc_top5'', Accuracy 2 2), (''stats'', StatScores 2)]"
  "test_metric_outputs example_model = []"
  "partial_x example_model = None" "partial_y example_model = None"
  "optimizer example_model = ''sgd''" "scheduler example_model = ''cosine''"
  "lr example_model = 1 / 100" "betas example_model = (9 / 10, 999 / 1000)"
  "momentum example_model = 9 / 10" "weight_decay example_model = 0"
  "warmup_steps example_model = 0"
  by (simp_all add: example_model_def default_hparams_def accuracy_metrics_def stats_metrics_def)

text \<open>
  Claim C6 as it is written fails in two places, both with the optimizer \<^verbatim>\<open>sgd\<close> and
  the scheduler \<^verbatim>\<open>cosine\<close>, two names that are accepted. When the trainer has no end of
  training, its estimate of the steps is \<^verbatim>\<open>float('inf')\<close> and line 403 raises an
  OverflowError: no dictionary is returned. And when the learning rate is negative, the
  constructor of the optimizer raises a ValueError, as the optimizers of the library do:
  a ValueError is raised though both names are accepted.
\<close>

theorem configure_optimizers_result_counterexample:
  "optimizer example_model \<in> {''adam'', ''adamw'', ''sgd'', ''adamw4bit''}
   \<and> scheduler example_model \<in> {''cosine'', ''none''}
   \<and> configure_optimizers (example_env\<lparr>lib_estimated_stepping_batches := Inr Infinite_steps\<rparr>)
         example_model
       = Inl (OverflowError ''cannot convert float infinity to integer'')
   \<and> \<not> is_ValueError (OverflowError ''cannot convert float infinity to integer'')
   \<and> optimizer (example_model\<lparr>lr := - 1\<rparr>) \<in> {''adam'', ''adamw'', ''sgd'', ''adamw4bit''}
   \<and> scheduler (example_model\<lparr>lr := - 1\<rparr>) \<in> {''cosine'', ''none''}
   \<and> configure_optimizers example_env (example_model\<lparr>lr := - 1\<rparr>)
       = Inl (In_library (ValueError ''Invalid learning rate''))
   \<and> is_ValueError (In_library (ValueError ''Invalid learning rate''))"
  by (simp add: configure_optimizers_def make_optimizer_def make_scheduler_def construct_def
        py_int_def example_model_fields example_env_def example_new_optimizer_def
        optimizer_lr_def)

theorem configure_optimizers_result_witness:
  "optimizer (example_model\<lparr>optimizer := ''rmsprop''\<rparr>)
     \<notin> {''adam'', ''adamw'', ''sgd'', ''adamw4bit''}
   \<and> configure_optimizers example_env (example_model\<lparr>optimizer := ''rmsprop''\<rparr>)
       = Inl (ValueError (optimizer_error_message ''rmsprop''))
   \<and> make_optimizer example_env (example_model\<lparr>optimizer := ''adamw4bit'', scheduler := ''none''\<rparr>)
       = Inr (Lpmm_AdamW (named_parameters example_net) (1 / 100) (9 / 10, 999 / 1000) 0)
   \<and> scheduler (example_model\<lparr>optimizer := ''adamw4bit'', scheduler := ''none''\<rparr>) = ''none''
   \<and> configure_optimizers example_env
         (example_model\<lparr>optimizer := ''adamw4bit'', scheduler := ''none''\<rparr>)
       = Inr \<lparr> dict_optimizer =
                 Lpmm_AdamW (named_parameters example_net) (1 / 100) (9 / 10, 999 / 1000) 0,
               dict_lr_scheduler =
                 \<lparr> sched_scheduler =
                     LambdaLR (Lpmm_AdamW (named_parameters example_net) (1 / 100)
                                 (9 / 10, 999 / 1000) 0) (\<lambda>_. 1),
                   sched_interval = ''step'' \<rparr> \<rparr>
   \<and> make_optimizer example_env example_model
       = Inr (SGD (named_parameters example_net) (1 / 100) (9 / 10) 0)
   \<and> scheduler example_model = ''cosine''
   \<and> configure_optimizers example_env example_model
       = Inr \<lparr> dict_optimizer = SGD (named_parameters example_net) (1 / 100) (9 / 10) 0,
               dict_lr_scheduler =
                 \<lparr> sched_scheduler =
                     Cosine_schedule_with_warmup
                       (SGD (named_parameters example_net) (1 / 100) (9 / 10) 0) 100 0,
                   sched_interval = ''step'' \<rparr> \<rparr>
   \<and> make_optimizer example_env (example_model\<lparr>scheduler := ''linear''\<rparr>)
       = Inr (SGD (named_parameters example_net) (1 / 100) (9 / 10) 0)
   \<and> scheduler (example_model\<lparr>scheduler := ''linear''\<rparr>) \<notin> {''cosine'', ''none''}
   \<and> configure_optimizers example_env (example_model\<lparr>scheduler := ''linear''\<rparr>)
       = Inl (ValueError (scheduler_error_message ''linear''))"
proof -
  let ?a = "example_model\<lparr>optimizer := ''rmsprop''\<rparr>"
  let ?b = "example_model\<lparr>optimizer := ''adamw4bit'', scheduler := ''none''\<rparr>"
  let ?c = "example_model\<lparr>scheduler := ''linear''\<rparr>"
  let ?lp = "Lpmm_AdamW (named_parameters example_net) (1 / 100) (9 / 10, 999 / 1000) 0"
  let ?sgd = "SGD (named_parameters example_net) (1 / 100) (9 / 10) 0"
  have a: "optimizer ?a \<notin> {''adam'', ''adamw'', ''sgd'', ''adamw4bit''}" by simp
  have b: "make_optimizer example_env ?b = Inr ?lp" "scheduler ?b = ''none''"
    by (simp_all add: make_optimizer_def construct_def example_model_fields example_env_def
          example_new_optimizer_def optimizer_lr_def)
  have c: "make_optimizer example_env example_model = Inr ?sgd"
    "scheduler example_model = ''cosine''"
    by (simp_all add: make_optimizer_def construct_def example_model_fields example_env_def
          example_new_optimizer_def optimizer_lr_def)
  have d: "make_optimizer example_env ?c = Inr ?sgd" "scheduler ?c \<notin> {''cosine'', ''none''}"
    by (simp_all add: make_optimizer_def construct_def example_model_fields example_env_def
          example_new_optimizer_def optimizer_lr_def)
  have e: "lib_new_scheduler example_env sch = None"
    "lib_estimated_stepping_batches example_env = Inr (Steps 100)" for sch
    by (simp_all add: example_env_def)
  have w: "warmup_steps example_model = 0" by (simp add: example_model_fields)
  from configure_optimizers_result [of example_env ?a] a
  have 1: "configure_optimizers example_env ?a = Inl (ValueError (optimizer_error_message ''rmsprop''))"
    by simp
  note B = configure_optimizers_result [of example_env ?b]
  from B b have "configure_optimizers example_env ?b =
          (case lib_new_scheduler example_env (LambdaLR ?lp (\<lambda>_. 1)) of
             Some err \<Rightarrow> Inl (In_library err)
           | None \<Rightarrow>
               Inr \<lparr> dict_optimizer = ?lp,
                     dict_lr_scheduler =
                       \<lparr> sched_scheduler = LambdaLR ?lp (\<lambda>_. 1), sched_interval = ''step'' \<rparr> \<rparr>)"
    by blast
  then have 2: "configure_optimizers example_env ?b
       = Inr \<lparr> dict_optimizer = ?lp,
               dict_lr_scheduler =
                 \<lparr> sched_scheduler = LambdaLR ?lp (\<lambda>_. 1), sched_interval = ''step'' \<rparr> \<rparr>"
    by (simp add: e)
  note C = configure_optimizers_result [of example_env example_model]
  from C c have "configure_optimizers example_env example_model =
          (case lib_estimated_stepping_batches example_env of
             Inl err \<Rightarrow> Inl (In_library err)
           | Inr Infinite_steps \<Rightarrow>
               Inl (OverflowError ''cannot convert float infinity to integer'')
           | Inr (Steps k) \<Rightarrow>
               (case lib_new_scheduler example_env
                       (Cosine_schedule_with_warmup ?sgd k (warmup_steps example_model)) of
                  Some err \<Rightarrow> Inl (In_library err)
                | None \<Rightarrow>
                    Inr \<lparr> dict_optimizer = ?sgd,
                          dict_lr_scheduler =
                            \<lparr> sched_scheduler =
                                Cosine_schedule_with_warmup ?sgd k (warmup_steps example_model),
                              sched_interval = ''step'' \<rparr> \<rparr>))"
    by blast
  then have 3: "configure_optimizers example_env example_model
       = Inr \<lparr> dict_optimizer = ?sgd,
               dict_lr_scheduler =
                 \<lparr> sched_scheduler = Cosine_schedule_with_warmup ?sgd 100 0,
                   sched_interval = ''step'' \<rparr> \<rparr>"
    by (simp add: e w)
  note D = configure_optimizers_result [of example_env ?c]
  from D d have 4: "configure_optimizers example_env ?c
       = Inl (ValueError (scheduler_error_message (scheduler ?c)))"
    by blast
  from a b c d 1 2 3 4 show ?thesis by simp
qed

section \<open>The step\<close>

lemma count_step_fields [simp]:
  "train_step (count_step self mode) = train_step self + (if mode = ''train'' then 1 else 0)"
  "val_step (count_step self mode) = val_step self + (if mode = ''val'' then 1 else 0)"
  "net (count_step self mode) = net self"
  "n_classes (count_step self mode) = n_classes self"
  "open_gact (count_step self mode) = open_gact self"
  "partial_x (count_step self mode) = partial_x self"
  "partial_y (count_step self mode) = partial_y self"
  "test_metric_outputs (count_step self mode) = test_metric_outputs self"
  "test_metrics (count_step self mode) = test_metrics self"
  by (simp_all add: count_step_def Let_def)

lemma store_partial_fields [simp]:
  "train_step (store_partial self x y) = train_step self"
  "val_step (store_partial self x y) = val_step self"
  "net (store_partial self x y) = net self"
  "n_classes (store_partial self x y) = n_classes self"
  "open_gact (store_partial self x y) = open_gact self"
  "test_metric_outputs (store_partial self x y) = test_metric_outputs self"
  "test_metrics (store_partial self x y) = test_metrics self"
  by (simp_all add: store_partial_def)

lemma record_metrics_state:
  "fst (record_metrics e self mode pred y loss) = self
   \<or> (\<exists>st. mode = ''test''
         \<and> fst (record_metrics e self mode pred y loss)
             = self\<lparr>test_metric_outputs := test_metric_outputs self @ [st]\<rparr>)"
  by (auto simp: record_metrics_def Let_def split: sum.splits)

lemma record_metrics_fields [simp]:
  "train_step (fst (record_metrics e self mode pred y loss)) = train_step self"
  "val_step (fst (record_metrics e self mode pred y loss)) = val_step self"
  "net (fst (record_metrics e self mode pred y loss)) = net self"
  "open_gact (fst (record_metrics e self mode pred y loss)) = open_gact self"
  "partial_x (fst (record_metrics e self mode pred y loss)) = partial_x self"
  "partial_y (fst (record_metrics e self mode pred y loss)) = partial_y self"
  using record_metrics_state [of e self mode pred y loss] by auto

lemma shared_step_state:
  "fst (shared_step e self (x, y) mode) = count_step self mode
   \<or> (\<exists>x' y' pred loss.
        fst (shared_step e self (x, y) mode)
          = fst (record_metrics e (store_partial (count_step self mode) x' y') mode pred y' loss))"
  by (auto simp: shared_step_def Let_def split: prod.splits sum.splits)
     (metis fst_conv)

lemma shared_step_fields:
  "train_step (fst (shared_step e self batch mode))
     = train_step self + (if mode = ''train'' then 1 else 0)"
  "val_step (fst (shared_step e self batch mode))
     = val_step self + (if mode = ''val'' then 1 else 0)"
  "net (fst (shared_step e self batch mode)) = net self"
  "open_gact (fst (shared_step e self batch mode)) = open_gact self"
  using shared_step_state [of e self "fst batch" "snd batch" mode] by auto

lemma init_counters:
  "init e hp = (es, Inr m) \<Longrightarrow> train_step m = 0 \<and> val_step m = 0"
  by (auto dest!: init_result)

lemma call_method_other:
  assumes "\<forall>b m. c \<noteq> Call_shared_step b m" "\<forall>b. c \<noteq> Call_training_step b"
    "\<forall>b. c \<noteq> Call_validation_step b" "\<forall>b. c \<noteq> Call_test_step b"
  shows "fst (call_method e self c) = self"
  using assms by (cases c) simp_all

lemma call_method_state:
  "fst (call_method e self (Call_shared_step b m)) = fst (shared_step e self b m)"
  "fst (call_method e self (Call_training_step b)) = fst (shared_step e self b ''train'')"
  "fst (call_method e self (Call_validation_step b)) = fst (shared_step e self b ''val'')"
  "fst (call_method e self (Call_test_step b)) = fst (shared_step e self b ''test'')"
  by (simp_all add: training_step_def validation_step_def test_step_def case_prod_beta)

text \<open>
  Claim C8. The constructor sets both counters to zero. A call of \<^verbatim>\<open>shared_step\<close>, also
  one that raises, adds one to \<^verbatim>\<open>train_step\<close> exactly in the mode \<^verbatim>\<open>train\<close> and one to
  \<^verbatim>\<open>val_step\<close> exactly in the mode \<^verbatim>\<open>val\<close>, and otherwise leaves the counter as it is, so
  the mode \<^verbatim>\<open>test\<close> changes neither. The three step methods change the object as
  \<^verbatim>\<open>shared_step\<close> does in their mode, and every other method leaves the object unchanged.
\<close>

theorem step_counters:
  "(\<forall>es m. init e hp = (es, Inr m) \<longrightarrow> train_step m = 0 \<and> val_step m = 0)
   \<and> train_step (fst (shared_step e self batch mode))
       = train_step self + (if mode = ''train'' then 1 else 0)
   \<and> val_step (fst (shared_step e self batch mode))
       = val_step self + (if mode = ''val'' then 1 else 0)
   \<and> ((train_step (fst (shared_step e self batch mode)) = train_step self + 1)
        = (mode = ''train''))
   \<and> ((val_step (fst (shared_step e self batch mode)) = val_step self + 1) = (mode = ''val''))
   \<and> (\<forall>c. (\<forall>b m. c \<noteq> Call_shared_step b m) \<and> (\<forall>b. c \<noteq> Call_training_step b)
          \<and> (\<forall>b. c \<noteq> Call_validation_step b) \<and> (\<forall>b. c \<noteq> Call_test_step b)
          \<longrightarrow> fst (call_method e self c) = self)
   \<and> fst (call_method e self (Call_training_step batch)) = fst (shared_step e self batch ''train'')
   \<and> fst (call_method e self (Call_validation_step batch)) = fst (shared_step e self batch ''val'')
   \<and> fst (call_method e self (Call_test_step batch)) = fst (shared_step e self batch ''test'')"
proof (intro conjI allI impI)
  fix es m assume "init e hp = (es, Inr m)"
  then show "train_step m = 0" "val_step m = 0" using init_counters by blast+
next
  show "train_step (fst (shared_step e self batch mode))
       = train_step self + (if mode = ''train'' then 1 else 0)"
    by (rule shared_step_fields)
  show "val_step (fst (shared_step e self batch mode))
       = val_step self + (if mode = ''val'' then 1 else 0)"
    by (rule shared_step_fields)
  show "(train_step (fst (shared_step e self batch mode)) = train_step self + 1)
        = (mode = ''train'')"
    by (simp add: shared_step_fields)
  show "(val_step (fst (shared_step e self batch mode)) = val_step self + 1) = (mode = ''val'')"
    by (simp add: shared_step_fields)
next
  fix c
  assume "(\<forall>b m. c \<noteq> Call_shared_step b m) \<and> (\<forall>b. c \<noteq> Call_training_step b)
          \<and> (\<forall>b. c \<noteq> Call_validation_step b) \<and> (\<forall>b. c \<noteq> Call_test_step b)"
  then show "fst (call_method e self c) = self" by (simp add: call_method_other)
next
  show "fst (call_method e self (Call_training_step batch)) = fst (shared_step e self batch ''train'')"
    "fst (call_method e self (Call_validation_step batch)) = fst (shared_step e self batch ''val'')"
    "fst (call_method e self (Call_test_step batch)) = fst (shared_step e self batch ''test'')"
    by (rule call_method_state)+
qed

theorem step_counters_witness:
  "(case snd (init example_env default_hparams) of
      Inl _ \<Rightarrow> None | Inr m \<Rightarrow> Some (train_step m, val_step m)) = Some (0, 0)
   \<and> train_step (fst (shared_step example_env example_model ([[0]], [1]) ''train'')) = 1
   \<and> val_step (fst (shared_step example_env example_model ([[0]], [1]) ''train'')) = 0
   \<and> val_step (fst (shared_step example_env example_model ([[0]], [1]) ''val'')) = 1
   \<and> train_step (fst (shared_step example_env example_model ([[0]], [1]) ''test'')) = 0
   \<and> fst (call_method example_env example_model Call_on_test_epoch_end) = example_model"
proof -
  obtain es m where i: "init example_env default_hparams = (es, Inr m)"
    using init_example_default by simp
  have z: "train_step example_model = 0" "val_step example_model = 0"
    by (simp_all add: example_model_def)
  have o: "(\<forall>b m. Call_on_test_epoch_end \<noteq> Call_shared_step b m)
          \<and> (\<forall>b. Call_on_test_epoch_end \<noteq> Call_training_step b)
          \<and> (\<forall>b. Call_on_test_epoch_end \<noteq> Call_validation_step b)
          \<and> (\<forall>b. Call_on_test_epoch_end \<noteq> Call_test_step b)"
    by simp
  from step_counters [of example_env default_hparams example_model "([[0]], [1])" "''train''"]
    step_counters [of example_env default_hparams example_model "([[0]], [1])" "''val''"]
    step_counters [of example_env default_hparams example_model "([[0]], [1])" "''test''"]
    i z o
  show ?thesis by simp
qed

end
